theory Spec2Isabelle
  imports Main
begin

section \<open>The goose HTTP client: data model\<close>

text \<open>
  The Go package \<^verbatim>\<open>http\<close> of goose (\<^verbatim>\<open>src/unnamed/part_000\<close>) has two public entry points,
  \<^verbatim>\<open>JsonRequest\<close> and \<^verbatim>\<open>BinaryRequest\<close>, which both dispatch through \<^verbatim>\<open>sendRequest\<close>.

  A Go \<^verbatim>\<open>[]byte\<close> and a Go \<^verbatim>\<open>string\<close> are sequences of 8-bit values, as an Isabelle
  \<^typ>\<open>string\<close> is: the conversions \<^verbatim>\<open>string(body)\<close> and \<^verbatim>\<open>[]byte(s)\<close> are the identity of
  the model. A nil slice and an empty one are told apart only where the source does so
  (\<^verbatim>\<open>reqData.ReqData != nil\<close>): there the model has an \<^typ>\<open>'a option\<close>.
\<close>

type_synonym bytes = string

text \<open>
  \<^verbatim>\<open>http.Header\<close> is \<^verbatim>\<open>map[string][]string\<close>. The source uses its methods \<^verbatim>\<open>Add\<close> and \<^verbatim>\<open>Get\<close>,
  which first bring the key into canonical form with \<^verbatim>\<open>textproto.CanonicalMIMEHeaderKey\<close>.
  That function belongs to the Go library, not to this package: it is a parameter
  \<open>canon\<close> here. \<^verbatim>\<open>Add\<close> is \<^verbatim>\<open>h[key] = append(h[key], value)\<close>; \<^verbatim>\<open>Get\<close> is the first value of
  the key, or the empty string.
\<close>

type_synonym Header = "string \<rightharpoonup> string list"

definition Header_Add :: "(string \<Rightarrow> string) \<Rightarrow> Header \<Rightarrow> string \<Rightarrow> string \<Rightarrow> Header" where
  "Header_Add canon h key v =
     (let k = canon key in h(k \<mapsto> (case h k of None \<Rightarrow> [] | Some vs \<Rightarrow> vs) @ [v]))"

definition Header_Get :: "(string \<Rightarrow> string) \<Rightarrow> Header \<Rightarrow> string \<Rightarrow> string" where
  "Header_Get canon h key =
     (case h (canon key) of None \<Rightarrow> [] | Some [] \<Rightarrow> [] | Some (v # _) \<Rightarrow> v)"

text \<open>\<^verbatim>\<open>type ErrorResponse struct { Message string; Code int; Title string }\<close>\<close>

record ErrorResponse =
  Message :: string
  Code :: int
  Title :: string

text \<open>\<^verbatim>\<open>type ErrorWrapper struct { Error ErrorResponse }\<close>\<close>

record ErrorWrapper =
  Error :: ErrorResponse

text \<open>
  A JSON document, as \<^verbatim>\<open>encoding/json\<close> sees it once its syntax is checked. A number is
  kept as its literal; the members of an object are kept in the order of the text, with
  their duplicates.
\<close>

datatype json =
    JNull
  | JBool bool
  | JNumber string
  | JString string
  | JArray "json list"
  | JObject "(string \<times> json) list"

text \<open>
  \<^verbatim>\<open>errInfo\<close> of \<^verbatim>\<open>sendRequest\<close> is an \<^verbatim>\<open>interface{}\<close> holding either the bytes read from
  the response body or the decoded \<^verbatim>\<open>ErrorResponse\<close>.
\<close>

datatype errInfo = RawBody bytes | Decoded ErrorResponse

text \<open>
  Errors as values. \<open>External\<close> is an error made outside this package (by
  \<^verbatim>\<open>encoding/json\<close>, \<^verbatim>\<open>net/http\<close>, the transport or the body reader).
  \<open>UnexpectedStatus url status info payload\<close> is the error of lines 182 to 188,
  \<^verbatim>\<open>errors.New(fmt.Sprintf("request (%s) returned unexpected status: %s; error info: %v; request body: %s", ...))\<close>,
  kept as its four arguments.
\<close>

datatype error =
    External string
  | Context string "bytes list" error
  | UnexpectedStatus string string errInfo string

text \<open>
  Modelled from the spec: \<^verbatim>\<open>gooseerrors.AddContext\<close> (package \<^verbatim>\<open>launchpad.net/goose/errors\<close>)
  is not among the source files. Section 7 of the specification says that every internal
  failure is wrapped with a short human-readable context string while the underlying cause
  remains inspectable: the wrapped error keeps the format string, its arguments and the cause.
\<close>

definition AddContext :: "error \<Rightarrow> string \<Rightarrow> bytes list \<Rightarrow> error" where
  "AddContext err format args = Context format args err"

text \<open>
  \<^verbatim>\<open>*http.Request\<close>: the fields the package sets or reads. \<open>ReqBody\<close> is \<open>None\<close> when
  \<^verbatim>\<open>http.NewRequest\<close> is given a nil body.
\<close>

record Request =
  Method :: string
  URL :: string
  Header :: Header
  ReqBody :: "bytes option"

text \<open>
  \<^verbatim>\<open>*http.Response\<close>: status code, status line, headers, and the body stream, which is what
  \<^verbatim>\<open>ioutil.ReadAll(rawResp.Body)\<close> returns: the bytes read and the error, if any, that ended
  the reading.
\<close>

record Response =
  StatusCode :: int
  Status :: string
  RespHeader :: Header
  Body :: bytes
  BodyErr :: "error option"

text \<open>
  \<^verbatim>\<open>type Client struct { http.Client; AuthToken string }\<close>. The embedded \<^verbatim>\<open>http.Client\<close>
  is used through its method \<^verbatim>\<open>Do\<close> only: a transport, which from a state \<open>'ts\<close> of the
  network and a request gives a response or an error, and the next state.
\<close>

record 'ts Client =
  Do :: "'ts \<Rightarrow> Request \<Rightarrow> (error + Response) \<times> 'ts"
  AuthToken :: string

text \<open>
  \<^verbatim>\<open>type RequestData struct\<close>. \<open>ReqHeaders\<close> is an \<^verbatim>\<open>http.Header\<close> that the source only
  ranges over: \<open>None\<close> is the nil map, \<open>Some kvs\<close> lists the entries in the order the
  \<^verbatim>\<open>range\<close> visits them (Go leaves that order open, so every order is a possible input).
  \<open>Params\<close> is a \<^verbatim>\<open>url.Values\<close>, used through \<^verbatim>\<open>Encode\<close> only. \<open>ReqValue\<close> and \<open>RespValue\<close>
  are \<^verbatim>\<open>interface{}\<close> (\<open>None\<close> is nil); \<open>RespData\<close> is a \<^verbatim>\<open>*[]byte\<close>: \<open>None\<close> is the nil
  pointer, \<open>Some bs\<close> a pointer to a slice that now holds \<open>bs\<close>.
\<close>

record ('a, 'v, 'p) RequestData =
  ReqHeaders :: "(string \<times> string list) list option"
  Params :: "'p option"
  ExpectedStatus :: "int list"
  ReqValue :: "'a option"
  RespValue :: "'v option"
  ReqData :: "bytes option"
  RespData :: "bytes option"

text \<open>
  The functions of the Go library that the package calls, as parameters:
  \<^item> \<open>CanonicalMIMEHeaderKey\<close>: the key normalisation of \<^verbatim>\<open>http.Header\<close>;
  \<^item> \<open>Encode\<close>: \<^verbatim>\<open>url.Values.Encode\<close>;
  \<^item> \<open>Marshal\<close>: \<^verbatim>\<open>json.Marshal\<close> on the request value;
  \<^item> \<open>NewRequestErr\<close>: the error \<^verbatim>\<open>http.NewRequest\<close> returns for a method and a URL, if any;
  \<^item> \<open>ParseJSON\<close>: the syntax of JSON, as \<^verbatim>\<open>json.Unmarshal\<close> checks it before it stores
    anything: a syntax error, or the document;
  \<^item> \<open>EqualFold\<close>: the case-insensitive comparison by which \<^verbatim>\<open>json.Unmarshal\<close> matches an
    object key with a field name when no field has exactly that name;
  \<^item> \<open>ParseInt\<close>: the value of a number literal as a Go \<^verbatim>\<open>int\<close>, if it is one
    (\<^verbatim>\<open>strconv.ParseInt\<close> and the overflow check);
  \<^item> \<open>Unmarshal\<close>: \<^verbatim>\<open>json.Unmarshal(b, &reqData.RespValue)\<close>, giving the error, if any, and
    what the destination holds afterwards;
  \<^item> \<open>SprintlnGeneric\<close>: the line \<^verbatim>\<open>fmt.Println(mm)\<close> prints after
    \<^verbatim>\<open>json.Unmarshal(b, &mm)\<close> for a fresh \<^verbatim>\<open>interface{}\<close>.
\<close>

record ('a, 'v, 'p) stdlib =
  CanonicalMIMEHeaderKey :: "string \<Rightarrow> string"
  Encode :: "'p \<Rightarrow> string"
  Marshal :: "'a \<Rightarrow> error + bytes"
  NewRequestErr :: "string \<Rightarrow> string \<Rightarrow> error option"
  ParseJSON :: "bytes \<Rightarrow> error + json"
  EqualFold :: "string \<Rightarrow> string \<Rightarrow> bool"
  ParseInt :: "string \<Rightarrow> int option"
  Unmarshal :: "bytes \<Rightarrow> 'v \<Rightarrow> error option \<times> 'v"
  SprintlnGeneric :: "bytes \<Rightarrow> string"

text \<open>
  What a call can change besides the descriptor: the state of the network, and the
  standard output (the \<^verbatim>\<open>fmt.Println\<close> of \<^verbatim>\<open>JsonRequest\<close>). \<open>sent\<close> records every request
  handed to \<^verbatim>\<open>c.Do\<close>, in order.
\<close>

record 'ts world =
  net :: 'ts
  sent :: "Request list"
  stdout :: "string list"

section \<open>The operations\<close>

text \<open>\<^verbatim>\<open>http.NewRequest(method, url, body)\<close>: an error, or a request with an empty header.\<close>

definition NewRequest ::
  "('a, 'v, 'p) stdlib \<Rightarrow> string \<Rightarrow> string \<Rightarrow> bytes option \<Rightarrow> error + Request" where
  "NewRequest L method url body =
     (case NewRequestErr L method url of
        Some err \<Rightarrow> Inl err
      | None \<Rightarrow> Inr \<lparr>Method = method, URL = url, Header = Map.empty, ReqBody = body\<rparr>)"

text \<open>\<^verbatim>\<open>c.Do(req)\<close>: one exchange with the transport.\<close>

definition clientDo ::
  "'ts Client \<Rightarrow> Request \<Rightarrow> 'ts world \<Rightarrow> (error + Response) \<times> 'ts world" where
  "clientDo c req w =
     (let (r, n) = Do c (net w) req in (r, w\<lparr>net := n, sent := sent w @ [req]\<rparr>))"

text \<open>Lines 146 to 152: the two nested loops that add the caller's headers.\<close>

fun addValues :: "(string \<Rightarrow> string) \<Rightarrow> Header \<Rightarrow> string \<Rightarrow> string list \<Rightarrow> Header" where
  "addValues canon h header [] = h"
| "addValues canon h header (v # vs) = addValues canon (Header_Add canon h header v) header vs"

fun addExtraHeaders ::
  "(string \<Rightarrow> string) \<Rightarrow> Header \<Rightarrow> (string \<times> string list) list \<Rightarrow> Header" where
  "addExtraHeaders canon h [] = h"
| "addExtraHeaders canon h ((header, vs) # rest) =
     addExtraHeaders canon (addValues canon h header vs) rest"

text \<open>Lines 146 to 155: the request as it is handed to \<^verbatim>\<open>c.Do\<close>.\<close>

definition outgoing ::
  "('a, 'v, 'p) stdlib \<Rightarrow> 'ts Client \<Rightarrow> Request \<Rightarrow> (string \<times> string list) list option \<Rightarrow> Request" where
  "outgoing L c req extraHeaders =
     (let canon = CanonicalMIMEHeaderKey L;
          req1 = (case extraHeaders of
                    None \<Rightarrow> req
                  | Some kvs \<Rightarrow> req\<lparr>Header := addExtraHeaders canon (Header req) kvs\<rparr>)
      in if AuthToken c \<noteq> []
         then req1\<lparr>Header := Header_Add canon (Header req1) ''X-Auth-Token'' (AuthToken c)\<rparr>
         else req1)"

text \<open>\<^verbatim>\<open>http.StatusOK\<close>\<close>

definition StatusOK :: int where
  "StatusOK = 200"

text \<open>Lines 165 to 170: the loop that looks for the status code, with its \<^verbatim>\<open>break\<close>.\<close>

fun findStatus :: "int \<Rightarrow> int list \<Rightarrow> bool" where
  "findStatus code [] = False"
| "findStatus code (status # rest) = (if code = status then True else findStatus code rest)"

text \<open>
  Line 178, \<^verbatim>\<open>json.Unmarshal(errInfo.([]byte), &wrappedErr)\<close>, for the types declared at lines
  22 to 34. \<^verbatim>\<open>json.Unmarshal\<close> first checks the syntax of the whole text. It then stores an
  object into a struct member by member, in the order of the text: a key selects the field
  whose name (its \<^verbatim>\<open>json\<close> tag) is the key or, when there is none, the first field whose name
  equals the key up to case; a key that selects no field is skipped with its value; a field
  that no key selects keeps the value it has. \<^verbatim>\<open>null\<close> stores nothing, into a struct, a
  string or an int. A string is stored into a string field, a number into an int field if
  it is an int; any other value for a field is a type error.

  After a type error \<^verbatim>\<open>json.Unmarshal\<close> goes on and returns the first such error at the
  end. \<open>sendRequest\<close> looks at what was stored only when no error is returned, so the model
  returns the error at once.
\<close>

definition UnmarshalTypeError :: error where
  "UnmarshalTypeError = External ''json: cannot unmarshal value into Go value''"

definition findField :: "(string \<Rightarrow> string \<Rightarrow> bool) \<Rightarrow> string list \<Rightarrow> string \<Rightarrow> string option" where
  "findField equalFold names key =
     (if key \<in> set names then Some key else find (\<lambda>name. equalFold name key) names)"

definition storeString :: "json \<Rightarrow> string \<Rightarrow> error + string" where
  "storeString v old =
     (case v of JString s \<Rightarrow> Inr s | JNull \<Rightarrow> Inr old | _ \<Rightarrow> Inl UnmarshalTypeError)"

definition storeInt :: "('a, 'v, 'p) stdlib \<Rightarrow> json \<Rightarrow> int \<Rightarrow> error + int" where
  "storeInt L v old =
     (case v of
        JNumber literal \<Rightarrow>
          (case ParseInt L literal of Some n \<Rightarrow> Inr n | None \<Rightarrow> Inl UnmarshalTypeError)
      | JNull \<Rightarrow> Inr old
      | _ \<Rightarrow> Inl UnmarshalTypeError)"

text \<open>The fields of \<^verbatim>\<open>ErrorResponse\<close>: \<^verbatim>\<open>message\<close>, \<^verbatim>\<open>code\<close> and \<^verbatim>\<open>title\<close>.\<close>

definition storeErrorResponseField ::
  "('a, 'v, 'p) stdlib \<Rightarrow> string \<Rightarrow> json \<Rightarrow> ErrorResponse \<Rightarrow> error + ErrorResponse" where
  "storeErrorResponseField L field v e =
     (if field = ''message''
      then (case storeString v (Message e) of Inl err \<Rightarrow> Inl err | Inr s \<Rightarrow> Inr (e\<lparr>Message := s\<rparr>))
      else if field = ''code''
      then (case storeInt L v (Code e) of Inl err \<Rightarrow> Inl err | Inr n \<Rightarrow> Inr (e\<lparr>Code := n\<rparr>))
      else (case storeString v (Title e) of Inl err \<Rightarrow> Inl err | Inr s \<Rightarrow> Inr (e\<lparr>Title := s\<rparr>)))"

fun storeErrorResponseMembers ::
  "('a, 'v, 'p) stdlib \<Rightarrow> (string \<times> json) list \<Rightarrow> ErrorResponse \<Rightarrow> error + ErrorResponse" where
  "storeErrorResponseMembers L [] e = Inr e"
| "storeErrorResponseMembers L ((key, v) # rest) e =
     (case findField (EqualFold L) [''message'', ''code'', ''title''] key of
        None \<Rightarrow> storeErrorResponseMembers L rest e
      | Some field \<Rightarrow>
          (case storeErrorResponseField L field v e of
             Inl err \<Rightarrow> Inl err
           | Inr e' \<Rightarrow> storeErrorResponseMembers L rest e'))"

definition storeErrorResponse ::
  "('a, 'v, 'p) stdlib \<Rightarrow> json \<Rightarrow> ErrorResponse \<Rightarrow> error + ErrorResponse" where
  "storeErrorResponse L v e =
     (case v of
        JObject members \<Rightarrow> storeErrorResponseMembers L members e
      | JNull \<Rightarrow> Inr e
      | _ \<Rightarrow> Inl UnmarshalTypeError)"

text \<open>The one field of \<^verbatim>\<open>ErrorWrapper\<close>: \<^verbatim>\<open>error\<close>.\<close>

fun storeErrorWrapperMembers ::
  "('a, 'v, 'p) stdlib \<Rightarrow> (string \<times> json) list \<Rightarrow> ErrorWrapper \<Rightarrow> error + ErrorWrapper" where
  "storeErrorWrapperMembers L [] wrapped = Inr wrapped"
| "storeErrorWrapperMembers L ((key, v) # rest) wrapped =
     (case findField (EqualFold L) [''error''] key of
        None \<Rightarrow> storeErrorWrapperMembers L rest wrapped
      | Some field \<Rightarrow>
          (case storeErrorResponse L v (Error wrapped) of
             Inl err \<Rightarrow> Inl err
           | Inr e \<Rightarrow> storeErrorWrapperMembers L rest (wrapped\<lparr>Error := e\<rparr>)))"

definition storeErrorWrapper ::
  "('a, 'v, 'p) stdlib \<Rightarrow> json \<Rightarrow> ErrorWrapper \<Rightarrow> error + ErrorWrapper" where
  "storeErrorWrapper L v wrapped =
     (case v of
        JObject members \<Rightarrow> storeErrorWrapperMembers L members wrapped
      | JNull \<Rightarrow> Inr wrapped
      | _ \<Rightarrow> Inl UnmarshalTypeError)"

text \<open>\<^verbatim>\<open>var wrappedErr ErrorWrapper\<close>: every field has its zero value.\<close>

definition zeroErrorWrapper :: ErrorWrapper where
  "zeroErrorWrapper = \<lparr>Error = \<lparr>Message = [], Code = 0, Title = []\<rparr>\<rparr>"

definition UnmarshalErrorWrapper :: "('a, 'v, 'p) stdlib \<Rightarrow> bytes \<Rightarrow> error + ErrorWrapper" where
  "UnmarshalErrorWrapper L b =
     (case ParseJSON L b of
        Inl err \<Rightarrow> Inl err
      | Inr v \<Rightarrow> storeErrorWrapper L v zeroErrorWrapper)"

text \<open>Lines 173 to 181: the error detail of a response whose status was not expected.\<close>

definition errorInfo :: "('a, 'v, 'p) stdlib \<Rightarrow> Response \<Rightarrow> errInfo" where
  "errorInfo L rawResp =
     (let raw = Body rawResp
      in if Header_Get (CanonicalMIMEHeaderKey L) (RespHeader rawResp) ''Content-Type''
              = ''application/json''
         then (case UnmarshalErrorWrapper L raw of
                 Inr wrappedErr \<Rightarrow> Decoded (Error wrappedErr)
               | Inl _ \<Rightarrow> RawBody raw)
         else RawBody raw)"

text \<open>
  \<^verbatim>\<open>sendRequest\<close> (lines 145 to 199). The result is the pair of its named results
  \<^verbatim>\<open>(respBody, err)\<close>, \<open>[]\<close> being the nil slice, and the world after the call.
\<close>

definition sendRequest ::
  "('a, 'v, 'p) stdlib \<Rightarrow> 'ts Client \<Rightarrow> Request \<Rightarrow> (string \<times> string list) list option \<Rightarrow>
     int list \<Rightarrow> string \<Rightarrow> 'ts world \<Rightarrow> (bytes \<times> error option) \<times> 'ts world" where
  "sendRequest L c req extraHeaders expectedStatus payloadInfo w =
     (let req' = outgoing L c req extraHeaders;
          (rawResp, w') = clientDo c req' w
      in case rawResp of
           Inl err \<Rightarrow> (([], Some (AddContext err ''failed executing the request'' [])), w')
         | Inr resp \<Rightarrow>
             (let expected = (if length expectedStatus = 0 then [StatusOK] else expectedStatus);
                  foundStatus = findStatus (StatusCode resp) expected
              in if \<not> foundStatus \<and> length expected > 0
                 then (([], Some (UnexpectedStatus (URL req') (Status resp)
                                    (errorInfo L resp) payloadInfo)), w')
                 else (case BodyErr resp of
                         Some err \<Rightarrow>
                           ((Body resp,
                             Some (AddContext err ''failed reading the response body'' [])), w')
                       | None \<Rightarrow> ((Body resp, None), w'))))"

text \<open>
  \<^verbatim>\<open>JsonRequest\<close> (lines 53 to 97). The result is the returned \<^verbatim>\<open>err\<close>, the descriptor after
  the call, and the world after the call.
\<close>

definition JsonRequest ::
  "('a, 'v, 'p) stdlib \<Rightarrow> 'ts Client \<Rightarrow> string \<Rightarrow> string \<Rightarrow> ('a, 'v, 'p) RequestData \<Rightarrow>
     'ts world \<Rightarrow> (error option \<times> ('a, 'v, 'p) RequestData) \<times> 'ts world" where
  "JsonRequest L c method url reqData w =
     (let canon = CanonicalMIMEHeaderKey L;
          url' = (case Params reqData of None \<Rightarrow> url | Some ps \<Rightarrow> url @ ''?'' @ Encode L ps);
          built = (case ReqValue reqData of
                     Some v \<Rightarrow>
                       (case Marshal L v of
                          Inl err \<Rightarrow> Inl (AddContext err ''failed marshalling the request body'' [])
                        | Inr body \<Rightarrow> Inr (body, NewRequest L method url' (Some body)))
                   | None \<Rightarrow> Inr ([], NewRequest L method url' None))
      in case built of
           Inl err \<Rightarrow> ((Some err, reqData), w)
         | Inr (body, Inl err) \<Rightarrow>
             ((Some (AddContext err ''failed creating the request'' []), reqData), w)
         | Inr (body, Inr req0) \<Rightarrow>
             (let req = req0\<lparr>Header :=
                          Header_Add canon
                            (Header_Add canon (Header req0) ''Content-Type'' ''application/json'')
                            ''Accept'' ''application/json''\<rparr>;
                  ((respBody, err), w') =
                     sendRequest L c req (ReqHeaders reqData) (ExpectedStatus reqData) body w
              in case err of
                   Some e \<Rightarrow> ((Some e, reqData), w')
                 | None \<Rightarrow>
                     if length respBody > 0
                     then (case RespValue reqData of
                             Some dest \<Rightarrow>
                               (let w'' = w'\<lparr>stdout := stdout w' @ [SprintlnGeneric L respBody]\<rparr>;
                                    (uerr, dest') = Unmarshal L respBody dest;
                                    reqData' = reqData\<lparr>RespValue := Some dest'\<rparr>
                                in case uerr of
                                     Some e \<Rightarrow>
                                       ((Some (AddContext e
                                                ''failed unmarshaling the response body: %s''
                                                [respBody]), reqData'), w'')
                                   | None \<Rightarrow> ((None, reqData'), w''))
                           | None \<Rightarrow> ((None, reqData), w'))
                     else ((None, reqData), w')))"

text \<open>\<^verbatim>\<open>BinaryRequest\<close> (lines 106 to 138), with the same result as \<open>JsonRequest\<close>.\<close>

definition BinaryRequest ::
  "('a, 'v, 'p) stdlib \<Rightarrow> 'ts Client \<Rightarrow> string \<Rightarrow> string \<Rightarrow> ('a, 'v, 'p) RequestData \<Rightarrow>
     'ts world \<Rightarrow> (error option \<times> ('a, 'v, 'p) RequestData) \<times> 'ts world" where
  "BinaryRequest L c method url reqData w =
     (let canon = CanonicalMIMEHeaderKey L;
          url' = (case Params reqData of None \<Rightarrow> url | Some ps \<Rightarrow> url @ ''?'' @ Encode L ps)
      in case NewRequest L method url' (ReqData reqData) of
           Inl err \<Rightarrow> ((Some (AddContext err ''failed creating the request'' []), reqData), w)
         | Inr req0 \<Rightarrow>
             (let req = req0\<lparr>Header :=
                          Header_Add canon
                            (Header_Add canon (Header req0) ''Content-Type''
                               ''application/octet-stream'')
                            ''Accept'' ''application/octet-stream''\<rparr>;
                  ((respBody, err), w') =
                     sendRequest L c req (ReqHeaders reqData) (ExpectedStatus reqData)
                       (case ReqData reqData of None \<Rightarrow> [] | Some d \<Rightarrow> d) w
              in case err of
                   Some e \<Rightarrow> ((Some e, reqData), w')
                 | None \<Rightarrow>
                     if length respBody > 0
                     then (case RespData reqData of
                             Some _ \<Rightarrow> ((None, reqData\<lparr>RespData := Some respBody\<rparr>), w')
                           | None \<Rightarrow> ((None, reqData), w'))
                     else ((None, reqData), w')))"

section \<open>Notions used to state the properties\<close>

text \<open>The status codes a call accepts: the default of line 163 when the list is empty.\<close>

definition acceptedStatuses :: "int list \<Rightarrow> int list" where
  "acceptedStatuses expectedStatus = (if expectedStatus = [] then [200] else expectedStatus)"

text \<open>The error of lines 182 to 188, an unexpected response status.\<close>

fun isUnexpectedStatus :: "error option \<Rightarrow> bool" where
  "isUnexpectedStatus (Some (UnexpectedStatus url status info payload)) = True"
| "isUnexpectedStatus _ = False"

text \<open>The error of line 158, a failure of the transport.\<close>

fun isExecutionFailure :: "error option \<Rightarrow> bool" where
  "isExecutionFailure (Some (Context format args cause)) = (format = ''failed executing the request'')"
| "isExecutionFailure _ = False"

text \<open>The values a header has for a key: none when the key is absent.\<close>

definition valuesOf :: "Header \<Rightarrow> string \<Rightarrow> string list" where
  "valuesOf h k = (case h k of None \<Rightarrow> [] | Some vs \<Rightarrow> vs)"

text \<open>The values the caller's extra headers give for a canonical key, in the order they are added.\<close>

definition callerValues ::
  "(string \<Rightarrow> string) \<Rightarrow> (string \<times> string list) list option \<Rightarrow> string \<Rightarrow> string list" where
  "callerValues canon extraHeaders k =
     (case extraHeaders of
        None \<Rightarrow> []
      | Some kvs \<Rightarrow> concat (map snd (filter (\<lambda>kv. canon (fst kv) = k) kvs)))"

text \<open>The header of a request once the caller's extra headers are merged (lines 146 to 152).\<close>

definition mergedHeaders ::
  "(string \<Rightarrow> string) \<Rightarrow> Header \<Rightarrow> (string \<times> string list) list option \<Rightarrow> Header" where
  "mergedHeaders canon h extraHeaders =
     (case extraHeaders of None \<Rightarrow> h | Some kvs \<Rightarrow> addExtraHeaders canon h kvs)"

section \<open>Simulated collaborators\<close>

text \<open>
  Stand-ins for the Go library and for the remote service, on which the properties are
  evaluated at concrete inputs. A request value is a string, or a channel, which
  \<^verbatim>\<open>encoding/json\<close> cannot encode; the destination of a response value is a Go string.
\<close>

datatype gvalue = GString string | GChan

text \<open>
  A reader of JSON texts for the stand-in library: a scanner, one character at a time, and a
  parser with a stack of the arrays and objects that are still open. It accepts the JSON
  grammar, with the escapes of one character in strings; it takes the escape \<^verbatim>\<open>\u\<close> as an
  error and does not look at the encoding of the characters of a string.
\<close>

datatype token = TLBrace | TRBrace | TLBracket | TRBracket | TColon | TComma | TScalar json

datatype lexmode = LPlain | LWord string | LString string | LEscape string

definition isDigit :: "char \<Rightarrow> bool" where
  "isDigit c = (c \<in> set ''0123456789'')"

definition isWordChar :: "char \<Rightarrow> bool" where
  "isWordChar c = (c \<in> set ''abcdefghijklmnopqrstuvwxyzABCDEFGHIJKLMNOPQRSTUVWXYZ0123456789+-.'')"

definition isSpace :: "char \<Rightarrow> bool" where
  "isSpace c = (c = CHR '' '' \<or> c = CHR 0x09 \<or> c = CHR 0x0A \<or> c = CHR 0x0D)"

definition validExp :: "string \<Rightarrow> bool" where
  "validExp r =
     (case r of
        [] \<Rightarrow> True
      | e # r' \<Rightarrow>
          if e = CHR ''e'' \<or> e = CHR ''E''
          then (let ds = (case r' of
                            [] \<Rightarrow> []
                          | s # t \<Rightarrow> if s = CHR ''+'' \<or> s = CHR ''-'' then t else r')
                in ds \<noteq> [] \<and> list_all isDigit ds)
          else False)"

definition validFrac :: "string \<Rightarrow> bool" where
  "validFrac r =
     (case r of
        [] \<Rightarrow> True
      | p # r' \<Rightarrow>
          if p = CHR ''.''
          then (case r' of
                  [] \<Rightarrow> False
                | d # r'' \<Rightarrow> isDigit d \<and> validExp (dropWhile isDigit r''))
          else validExp r)"

definition validNumber :: "string \<Rightarrow> bool" where
  "validNumber w =
     (let u = (case w of [] \<Rightarrow> [] | s # t \<Rightarrow> if s = CHR ''-'' then t else w)
      in case u of
           [] \<Rightarrow> False
         | d # r \<Rightarrow>
             if d = CHR ''0'' then validFrac r
             else if isDigit d then validFrac (dropWhile isDigit r)
             else False)"

definition flushWord :: "string \<Rightarrow> token option" where
  "flushWord acc =
     (let w = rev acc
      in if w = ''null'' then Some (TScalar JNull)
         else if w = ''true'' then Some (TScalar (JBool True))
         else if w = ''false'' then Some (TScalar (JBool False))
         else if validNumber w then Some (TScalar (JNumber w))
         else None)"

definition unescape :: "char \<Rightarrow> char option" where
  "unescape c =
     (if c = CHR 0x22 then Some (CHR 0x22)
      else if c = CHR 0x5C then Some (CHR 0x5C)
      else if c = CHR ''/'' then Some (CHR ''/'')
      else if c = CHR ''b'' then Some (CHR 0x08)
      else if c = CHR ''f'' then Some (CHR 0x0C)
      else if c = CHR ''n'' then Some (CHR 0x0A)
      else if c = CHR ''r'' then Some (CHR 0x0D)
      else if c = CHR ''t'' then Some (CHR 0x09)
      else None)"

definition lexPlain :: "token list \<Rightarrow> char \<Rightarrow> (lexmode \<times> token list) option" where
  "lexPlain toks c =
     (if isSpace c then Some (LPlain, toks)
      else if c = CHR ''{'' then Some (LPlain, TLBrace # toks)
      else if c = CHR ''}'' then Some (LPlain, TRBrace # toks)
      else if c = CHR ''['' then Some (LPlain, TLBracket # toks)
      else if c = CHR '']'' then Some (LPlain, TRBracket # toks)
      else if c = CHR '':'' then Some (LPlain, TColon # toks)
      else if c = CHR '','' then Some (LPlain, TComma # toks)
      else if c = CHR 0x22 then Some (LString [], toks)
      else if isWordChar c then Some (LWord [c], toks)
      else None)"

fun lexStep :: "lexmode \<Rightarrow> token list \<Rightarrow> char \<Rightarrow> (lexmode \<times> token list) option" where
  "lexStep LPlain toks c = lexPlain toks c"
| "lexStep (LWord acc) toks c =
     (if isWordChar c then Some (LWord (c # acc), toks)
      else (case flushWord acc of None \<Rightarrow> None | Some t \<Rightarrow> lexPlain (t # toks) c))"
| "lexStep (LString acc) toks c =
     (if c = CHR 0x22 then Some (LPlain, TScalar (JString (rev acc)) # toks)
      else if c = CHR 0x5C then Some (LEscape acc, toks)
      else if (of_char c :: nat) < 32 then None
      else Some (LString (c # acc), toks))"
| "lexStep (LEscape acc) toks c =
     (case unescape c of None \<Rightarrow> None | Some d \<Rightarrow> Some (LString (d # acc), toks))"

fun lexAll :: "lexmode \<Rightarrow> token list \<Rightarrow> string \<Rightarrow> token list option" where
  "lexAll LPlain toks [] = Some (rev toks)"
| "lexAll (LWord acc) toks [] =
     (case flushWord acc of None \<Rightarrow> None | Some t \<Rightarrow> Some (rev (t # toks)))"
| "lexAll (LString acc) toks [] = None"
| "lexAll (LEscape acc) toks [] = None"
| "lexAll mode toks (c # cs) =
     (case lexStep mode toks c of None \<Rightarrow> None | Some (mode', toks') \<Rightarrow> lexAll mode' toks' cs)"

text \<open>The parser: the open arrays and objects, innermost first, and what may come next.\<close>

datatype frame =
    FArray "json list"
  | FObject "(string \<times> json) list"
  | FMember "(string \<times> json) list" string

datatype expect = EValue | EValueOrClose | EKeyOrClose | EKey | EColon | ECommaOrClose | EDone json

fun complete :: "json \<Rightarrow> frame list \<Rightarrow> (frame list \<times> expect) option" where
  "complete v [] = Some ([], EDone v)"
| "complete v (FArray xs # st) = Some (FArray (v # xs) # st, ECommaOrClose)"
| "complete v (FMember ms k # st) = Some (FObject ((k, v) # ms) # st, ECommaOrClose)"
| "complete v (FObject ms # st) = None"

definition openValue :: "frame list \<Rightarrow> token \<Rightarrow> (frame list \<times> expect) option" where
  "openValue st t =
     (case t of
        TScalar v \<Rightarrow> complete v st
      | TLBracket \<Rightarrow> Some (FArray [] # st, EValueOrClose)
      | TLBrace \<Rightarrow> Some (FObject [] # st, EKeyOrClose)
      | _ \<Rightarrow> None)"

definition closeFrame :: "frame list \<Rightarrow> token \<Rightarrow> (frame list \<times> expect) option" where
  "closeFrame st t =
     (case (st, t) of
        (FArray xs # st', TRBracket) \<Rightarrow> complete (JArray (rev xs)) st'
      | (FObject ms # st', TRBrace) \<Rightarrow> complete (JObject (rev ms)) st'
      | _ \<Rightarrow> None)"

definition readKey :: "frame list \<Rightarrow> token \<Rightarrow> (frame list \<times> expect) option" where
  "readKey st t =
     (case (st, t) of
        (FObject ms # st', TScalar (JString k)) \<Rightarrow> Some (FMember ms k # st', EColon)
      | _ \<Rightarrow> None)"

fun parseStep :: "expect \<Rightarrow> frame list \<Rightarrow> token \<Rightarrow> (frame list \<times> expect) option" where
  "parseStep EValue st t = openValue st t"
| "parseStep EValueOrClose st t = (if t = TRBracket then closeFrame st t else openValue st t)"
| "parseStep EKeyOrClose st t = (if t = TRBrace then closeFrame st t else readKey st t)"
| "parseStep EKey st t = readKey st t"
| "parseStep EColon st t = (if t = TColon then Some (st, EValue) else None)"
| "parseStep ECommaOrClose st t =
     (if t = TComma
      then (case st of
              FArray xs # st' \<Rightarrow> Some (st, EValue)
            | FObject ms # st' \<Rightarrow> Some (st, EKey)
            | _ \<Rightarrow> None)
      else closeFrame st t)"
| "parseStep (EDone v) st t = None"

fun parseAll :: "expect \<Rightarrow> frame list \<Rightarrow> token list \<Rightarrow> json option" where
  "parseAll (EDone v) [] [] = Some v"
| "parseAll e st [] = None"
| "parseAll e st (t # ts) =
     (case parseStep e st t of None \<Rightarrow> None | Some (st', e') \<Rightarrow> parseAll e' st' ts)"

definition parseJSON :: "bytes \<Rightarrow> json option" where
  "parseJSON b = (case lexAll LPlain [] b of None \<Rightarrow> None | Some ts \<Rightarrow> parseAll EValue [] ts)"

text \<open>A number literal as a 64-bit \<^verbatim>\<open>int\<close>: an optional sign and digits, within the range.\<close>

definition digitValue :: "char \<Rightarrow> int" where
  "digitValue c =
     (case map_of (zip ''0123456789'' [0, 1, 2, 3, 4, 5, 6, 7, 8, 9]) c of
        Some d \<Rightarrow> d
      | None \<Rightarrow> 0)"

definition parseInt :: "string \<Rightarrow> int option" where
  "parseInt literal =
     (let negative = (literal \<noteq> [] \<and> hd literal = CHR ''-'');
          digits = (if literal \<noteq> [] \<and> (hd literal = CHR ''-'' \<or> hd literal = CHR ''+'')
                    then tl literal else literal);
          magnitude = foldl (\<lambda>n d. 10 * n + digitValue d) 0 digits;
          n = (if negative then - magnitude else magnitude)
      in if digits \<noteq> [] \<and> list_all isDigit digits \<and> - (2 ^ 63) \<le> n \<and> n < 2 ^ 63
         then Some n else None)"

text \<open>Equality of two names up to the case of the letters A to Z.\<close>

definition lowerASCII :: "char \<Rightarrow> char" where
  "lowerASCII c =
     (case map_of (zip ''ABCDEFGHIJKLMNOPQRSTUVWXYZ'' ''abcdefghijklmnopqrstuvwxyz'') c of
        Some l \<Rightarrow> l
      | None \<Rightarrow> c)"

definition equalFoldASCII :: "string \<Rightarrow> string \<Rightarrow> bool" where
  "equalFoldASCII a b = (map lowerASCII a = map lowerASCII b)"

text \<open>
  The error envelope of the specification's scenario:
  \<^verbatim>\<open>{"error":{"message":"quota exceeded","code":413,"title":"Over Limit"}}\<close>.
\<close>

definition quotaBody :: bytes where
  "quotaBody = ''{'' @ [CHR 0x22] @ ''error'' @ [CHR 0x22] @ '':{'' @ [CHR 0x22] @ ''message''
     @ [CHR 0x22] @ '':'' @ [CHR 0x22] @ ''quota exceeded'' @ [CHR 0x22] @ '','' @ [CHR 0x22]
     @ ''code'' @ [CHR 0x22] @ '':413,'' @ [CHR 0x22] @ ''title'' @ [CHR 0x22] @ '':''
     @ [CHR 0x22] @ ''Over Limit'' @ [CHR 0x22] @ ''}}''"

text \<open>A JSON object that is not an error envelope: \<^verbatim>\<open>{"foo":"bar"}\<close>.\<close>

definition fooBody :: bytes where
  "fooBody = ''{'' @ [CHR 0x22] @ ''foo'' @ [CHR 0x22] @ '':'' @ [CHR 0x22] @ ''bar''
     @ [CHR 0x22] @ ''}''"

definition testlib :: "(gvalue, string, string) stdlib" where
  "testlib =
     \<lparr>CanonicalMIMEHeaderKey = (\<lambda>key. key),
      Encode = (\<lambda>ps. ps),
      Marshal = (\<lambda>v. case v of
                        GString s \<Rightarrow> Inr ([CHR 0x22] @ s @ [CHR 0x22])
                      | GChan \<Rightarrow> Inl (External ''json: unsupported type: chan int'')),
      NewRequestErr = (\<lambda>method url.
                         if url = [] then Some (External ''parse: empty url'') else None),
      ParseJSON = (\<lambda>b. case parseJSON b of
                           Some v \<Rightarrow> Inr v
                         | None \<Rightarrow> Inl (External ''json: syntax error'')),
      EqualFold = equalFoldASCII,
      ParseInt = parseInt,
      Unmarshal = (\<lambda>b dest. case parseJSON b of
                                Some (JString s) \<Rightarrow> (None, s)
                              | Some JNull \<Rightarrow> (None, dest)
                              | Some _ \<Rightarrow> (Some UnmarshalTypeError, dest)
                              | None \<Rightarrow> (Some (External ''json: syntax error''), dest)),
      SprintlnGeneric = (\<lambda>b. b)\<rparr>"

text \<open>A response with a status code, a content type and a body that is read to its end.\<close>

definition reply :: "int \<Rightarrow> string \<Rightarrow> string \<Rightarrow> bytes \<Rightarrow> Response" where
  "reply code status contentType body =
     \<lparr>StatusCode = code, Status = status,
      RespHeader = [''Content-Type'' \<mapsto> [contentType]], Body = body, BodyErr = None\<rparr>"

text \<open>
  The throttling transport of the specification's scenario: the state counts the attempts
  made so far; the first \<open>k\<close> attempts are answered \<open>busy\<close>, every later one \<open>ok\<close>.
\<close>

definition throttled ::
  "nat \<Rightarrow> Response \<Rightarrow> Response \<Rightarrow> nat \<Rightarrow> Request \<Rightarrow> (error + Response) \<times> nat" where
  "throttled k busy ok n req = (Inr (if n < k then busy else ok), Suc n)"

text \<open>A transport that answers every request with the same response, and one that fails.\<close>

definition always :: "Response \<Rightarrow> nat \<Rightarrow> Request \<Rightarrow> (error + Response) \<times> nat" where
  "always resp n req = (Inr resp, Suc n)"

definition refusing :: "nat \<Rightarrow> Request \<Rightarrow> (error + Response) \<times> nat" where
  "refusing n req = (Inl (External ''dial tcp: connection refused''), Suc n)"

definition world0 :: "nat world" where
  "world0 = \<lparr>net = 0, sent = [], stdout = []\<rparr>"

text \<open>The empty descriptor, \<^verbatim>\<open>RequestData{}\<close>.\<close>

definition emptyRequestData :: "(gvalue, string, string) RequestData" where
  "emptyRequestData =
     \<lparr>ReqHeaders = None, Params = None, ExpectedStatus = [], ReqValue = None,
      RespValue = None, ReqData = None, RespData = None\<rparr>"

section \<open>Properties of \<open>sendRequest\<close>\<close>

text \<open>The loop of lines 165 to 170 is a membership test.\<close>

lemma findStatus_iff: "findStatus code xs \<longleftrightarrow> code \<in> set xs"
  by (induction xs) auto

text \<open>
  What \<open>sendRequest\<close> returns when the transport answers the outgoing request with a response,
  and when it fails: one exchange, then the classification of the status code.
\<close>

lemma sendRequest_response:
  assumes "Do c (net w) (outgoing L c req hs) = (Inr resp, n)"
  shows "sendRequest L c req hs ex p w =
     ((if StatusCode resp \<in> set (acceptedStatuses ex)
       then (Body resp, map_option (\<lambda>e. AddContext e ''failed reading the response body'' []) (BodyErr resp))
       else ([], Some (UnexpectedStatus (URL (outgoing L c req hs)) (Status resp) (errorInfo L resp) p))),
      w\<lparr>net := n, sent := sent w @ [outgoing L c req hs]\<rparr>)"
  using assms
  by (cases ex) (auto simp: sendRequest_def clientDo_def acceptedStatuses_def StatusOK_def findStatus_iff Let_def split: option.splits)

lemma sendRequest_failure:
  assumes "Do c (net w) (outgoing L c req hs) = (Inl e, n)"
  shows "sendRequest L c req hs ex p w =
     (([], Some (AddContext e ''failed executing the request'' [])),
      w\<lparr>net := n, sent := sent w @ [outgoing L c req hs]\<rparr>)"
  using assms by (simp add: sendRequest_def clientDo_def)

lemma sendRequest_sent:
  "sent (snd (sendRequest L c req hs ex p w)) = sent w @ [outgoing L c req hs]"
  by (simp add: sendRequest_def clientDo_def Let_def split: prod.splits sum.splits option.splits)

lemma sendRequest_empty_body:
  assumes "sendRequest L c req hs ex p w = ((b, err), w')"
    and "isExecutionFailure err \<or> isUnexpectedStatus err"
  shows "b = []"
  using assms
  by (auto simp: sendRequest_def Let_def AddContext_def split: prod.splits sum.splits option.splits if_splits)

text \<open>
  Against the throttling transport, started afresh: the answer to the first attempt decides
  the call, whatever \<open>k\<close> is.
\<close>

lemma sendRequest_throttled:
  assumes "Do c = throttled k busy ok" and "net w = 0"
    and "StatusCode busy = 429" and "429 \<notin> set (acceptedStatuses ex)"
    and "StatusCode ok \<in> set (acceptedStatuses ex)" and "BodyErr ok = None"
  shows "sendRequest L c req hs ex p w =
           ((if k = 0 then (Body ok, None)
             else ([], Some (UnexpectedStatus (URL (outgoing L c req hs)) (Status busy)
                               (errorInfo L busy) p))),
            w\<lparr>net := 1, sent := sent w @ [outgoing L c req hs]\<rparr>)"
proof -
  have d: "Do c (net w) (outgoing L c req hs) = (Inr (if k = 0 then ok else busy), 1)"
    using assms(1,2) by (simp add: throttled_def)
  show ?thesis
    using assms(3-6) by (simp add: sendRequest_response [OF d])
qed

lemma always_throttled_failure:
  assumes "\<forall>n r. \<exists>busy n'. Do c n r = (Inr busy, n') \<and> StatusCode busy = 429"
    and "429 \<notin> set (acceptedStatuses ex)"
  shows "isUnexpectedStatus (snd (fst (sendRequest L c req hs ex p w)))"
proof -
  from assms(1) obtain busy n' where
    d: "Do c (net w) (outgoing L c req hs) = (Inr busy, n')" and s: "StatusCode busy = 429"
    by blast
  show ?thesis
    using assms(2) s by (simp add: sendRequest_response [OF d])
qed

subsection \<open>Headers\<close>

text \<open>
  \<^verbatim>\<open>Add\<close> appends to the values of one key and leaves the other keys alone, so the two loops
  of \<open>sendRequest\<close> and the token only ever extend what a key already has.
\<close>

lemma Header_Add_apply:
  "Header_Add canon h key v k =
     (if k = canon key then Some (valuesOf h k @ [v]) else h k)"
  by (simp add: Header_Add_def valuesOf_def Let_def)

lemma Header_Add_keeps:
  "h k = Some vs \<Longrightarrow> Header_Add canon h key v k = Some (vs @ (if canon key = k then [v] else []))"
  by (auto simp: Header_Add_apply valuesOf_def)

lemma addValues_keeps:
  "h k = Some vs \<Longrightarrow>
     addValues canon h key vals k = Some (vs @ (if canon key = k then vals else []))"
proof (induction vals arbitrary: h vs)
  case Nil
  then show ?case by simp
next
  case (Cons v vals)
  have "Header_Add canon h key v k = Some (vs @ (if canon key = k then [v] else []))"
    using Cons.prems by (rule Header_Add_keeps)
  then have "addValues canon (Header_Add canon h key v) key vals k
               = Some ((vs @ (if canon key = k then [v] else [])) @ (if canon key = k then vals else []))"
    by (rule Cons.IH)
  then show ?case by simp
qed

lemma addExtraHeaders_keeps:
  "h k = Some vs \<Longrightarrow>
     addExtraHeaders canon h kvs k = Some (vs @ callerValues canon (Some kvs) k)"
proof (induction kvs arbitrary: h vs)
  case Nil
  then show ?case by (simp add: callerValues_def)
next
  case (Cons kv kvs)
  obtain key vals where kv: "kv = (key, vals)" by (cases kv)
  have "addValues canon h key vals k = Some (vs @ (if canon key = k then vals else []))"
    using Cons.prems by (rule addValues_keeps)
  then have "addExtraHeaders canon (addValues canon h key vals) kvs k
               = Some ((vs @ (if canon key = k then vals else [])) @ callerValues canon (Some kvs) k)"
    by (rule Cons.IH)
  then show ?case
    by (simp add: kv callerValues_def)
qed

lemma outgoing_keeps:
  assumes "Header req k = Some vs"
  shows "Header (outgoing L c req hs) k =
           Some (vs @ callerValues (CanonicalMIMEHeaderKey L) hs k
                   @ (if AuthToken c \<noteq> [] \<and> k = CanonicalMIMEHeaderKey L ''X-Auth-Token''
                      then [AuthToken c] else []))"
proof (cases hs)
  case None
  then show ?thesis
    using assms by (auto simp: outgoing_def Let_def callerValues_def Header_Add_apply valuesOf_def)
next
  case (Some kvs)
  have "addExtraHeaders (CanonicalMIMEHeaderKey L) (Header req) kvs k
          = Some (vs @ callerValues (CanonicalMIMEHeaderKey L) (Some kvs) k)"
    using assms by (rule addExtraHeaders_keeps)
  with Some show ?thesis
    by (auto simp: outgoing_def Let_def Header_Add_apply valuesOf_def)
qed

lemma facade_headers:
  assumes "h = Header_Add canon (Header_Add canon Map.empty ''Content-Type'' ct) ''Accept'' ct"
  shows "\<exists>rest. h (canon ''Content-Type'') = Some (ct # rest)"
    and "\<exists>rest. h (canon ''Accept'') = Some (ct # rest)"
  using assms by (auto simp: Header_Add_apply valuesOf_def)

lemma outgoing_facade_values:
  assumes "Header req = Header_Add (CanonicalMIMEHeaderKey L)
             (Header_Add (CanonicalMIMEHeaderKey L) Map.empty ''Content-Type'' ct) ''Accept'' ct"
    and "k = CanonicalMIMEHeaderKey L ''Content-Type'' \<or> k = CanonicalMIMEHeaderKey L ''Accept''"
  shows "\<exists>pre post. Header (outgoing L c req hs) k
           = Some (ct # pre @ callerValues (CanonicalMIMEHeaderKey L) hs k @ post)"
proof -
  let ?canon = "CanonicalMIMEHeaderKey L"
  from facade_headers [where h="Header req" and canon="?canon" and ct=ct, OF assms(1)] assms(2)
  obtain pre where a: "Header req k = Some (ct # pre)" by blast
  have "Header (outgoing L c req hs) k
          = Some (ct # pre @ callerValues ?canon hs k
                    @ (if AuthToken c \<noteq> [] \<and> k = ?canon ''X-Auth-Token'' then [AuthToken c] else []))"
    using outgoing_keeps [where req=req and L=L and c=c and hs=hs, OF a] by simp
  then show ?thesis by blast
qed

lemma outgoing_Header:
  "Header (outgoing L c req hs) =
     (if AuthToken c \<noteq> []
      then Header_Add (CanonicalMIMEHeaderKey L)
             (mergedHeaders (CanonicalMIMEHeaderKey L) (Header req) hs) ''X-Auth-Token'' (AuthToken c)
      else mergedHeaders (CanonicalMIMEHeaderKey L) (Header req) hs)"
  by (simp add: outgoing_def mergedHeaders_def Let_def split: option.splits)

section \<open>Properties of \<open>JsonRequest\<close> and \<open>BinaryRequest\<close>\<close>

text \<open>
  A call either returns early, with an error and without any effect, or builds a request
  that carries the content type of its kind and treats the result of \<open>sendRequest\<close>.
\<close>

lemma JsonRequest_cases:
  obtains (early) e where "JsonRequest L c m u rd w = ((Some e, rd), w)"
  | (dispatched) req body where
      "Header req = Header_Add (CanonicalMIMEHeaderKey L)
             (Header_Add (CanonicalMIMEHeaderKey L) Map.empty ''Content-Type'' ''application/json'')
             ''Accept'' ''application/json''"
      "JsonRequest L c m u rd w =
         (case sendRequest L c req (ReqHeaders rd) (ExpectedStatus rd) body w of
            ((respBody, Some e), w') \<Rightarrow> ((Some e, rd), w')
          | ((respBody, None), w') \<Rightarrow>
              if length respBody > 0
              then (case RespValue rd of
                      Some dest \<Rightarrow>
                        ((map_option (\<lambda>e. AddContext e ''failed unmarshaling the response body: %s'' [respBody])
                            (fst (Unmarshal L respBody dest)),
                          rd\<lparr>RespValue := Some (snd (Unmarshal L respBody dest))\<rparr>),
                         w'\<lparr>stdout := stdout w' @ [SprintlnGeneric L respBody]\<rparr>)
                    | None \<Rightarrow> ((None, rd), w'))
              else ((None, rd), w'))"
proof -
  let ?url = "case Params rd of None \<Rightarrow> u | Some ps \<Rightarrow> u @ ''?'' @ Encode L ps"
  show thesis
  proof (cases "ReqValue rd")
    case None
    show thesis
    proof (cases "NewRequestErr L m ?url")
      case (Some e)
      with None have "JsonRequest L c m u rd w = ((Some (AddContext e ''failed creating the request'' []), rd), w)"
        by (simp add: JsonRequest_def NewRequest_def)
      then show thesis by (rule early)
    next
      case N: None
      show thesis
        apply (rule dispatched [where body="[]" and req="\<lparr>Method = m, URL = ?url, Header = Header_Add (CanonicalMIMEHeaderKey L)
             (Header_Add (CanonicalMIMEHeaderKey L) Map.empty ''Content-Type'' ''application/json'')
             ''Accept'' ''application/json'', ReqBody = None\<rparr>"])
         apply simp
        using None N
        apply (simp add: JsonRequest_def NewRequest_def Let_def split: prod.splits option.splits)
        done
    qed
  next
    case V: (Some v)
    show thesis
    proof (cases "Marshal L v")
      case (Inl e)
      with V have "JsonRequest L c m u rd w =
          ((Some (AddContext e ''failed marshalling the request body'' []), rd), w)"
        by (simp add: JsonRequest_def)
      then show thesis by (rule early)
    next
      case (Inr body)
      show thesis
      proof (cases "NewRequestErr L m ?url")
        case (Some e)
        with V Inr have "JsonRequest L c m u rd w =
            ((Some (AddContext e ''failed creating the request'' []), rd), w)"
          by (simp add: JsonRequest_def NewRequest_def)
        then show thesis by (rule early)
      next
        case N: None
        show thesis
          apply (rule dispatched [where body=body and req="\<lparr>Method = m, URL = ?url,
               Header = Header_Add (CanonicalMIMEHeaderKey L)
                 (Header_Add (CanonicalMIMEHeaderKey L) Map.empty ''Content-Type'' ''application/json'')
                 ''Accept'' ''application/json'', ReqBody = Some body\<rparr>"])
           apply simp
          using V Inr N
          apply (simp add: JsonRequest_def NewRequest_def Let_def split: prod.splits option.splits)
          done
      qed
    qed
  qed
qed

lemma BinaryRequest_cases:
  obtains (early) e where "BinaryRequest L c m u rd w = ((Some e, rd), w)"
  | (dispatched) req where
      "Header req = Header_Add (CanonicalMIMEHeaderKey L)
             (Header_Add (CanonicalMIMEHeaderKey L) Map.empty ''Content-Type'' ''application/octet-stream'')
             ''Accept'' ''application/octet-stream''"
      "BinaryRequest L c m u rd w =
         (case sendRequest L c req (ReqHeaders rd) (ExpectedStatus rd)
                 (case ReqData rd of None \<Rightarrow> [] | Some d \<Rightarrow> d) w of
            ((respBody, Some e), w') \<Rightarrow> ((Some e, rd), w')
          | ((respBody, None), w') \<Rightarrow>
              if length respBody > 0
              then (case RespData rd of
                      Some old \<Rightarrow> ((None, rd\<lparr>RespData := Some respBody\<rparr>), w')
                    | None \<Rightarrow> ((None, rd), w'))
              else ((None, rd), w'))"
proof -
  let ?url = "case Params rd of None \<Rightarrow> u | Some ps \<Rightarrow> u @ ''?'' @ Encode L ps"
  show thesis
  proof (cases "NewRequestErr L m ?url")
    case (Some e)
    then have "BinaryRequest L c m u rd w =
        ((Some (AddContext e ''failed creating the request'' []), rd), w)"
      by (simp add: BinaryRequest_def NewRequest_def)
    then show thesis by (rule early)
  next
    case N: None
    show thesis
      apply (rule dispatched [where req="\<lparr>Method = m, URL = ?url,
           Header = Header_Add (CanonicalMIMEHeaderKey L)
             (Header_Add (CanonicalMIMEHeaderKey L) Map.empty ''Content-Type'' ''application/octet-stream'')
             ''Accept'' ''application/octet-stream'', ReqBody = ReqData rd\<rparr>"])
       apply simp
      using N
      apply (simp add: BinaryRequest_def NewRequest_def Let_def split: prod.splits option.splits)
      done
  qed
qed

lemma JsonRequest_sent_cases:
  "sent (snd (JsonRequest L c m u rd w)) = sent w \<or>
   (\<exists>req. Header req = Header_Add (CanonicalMIMEHeaderKey L)
             (Header_Add (CanonicalMIMEHeaderKey L) Map.empty ''Content-Type'' ''application/json'')
             ''Accept'' ''application/json''
      \<and> sent (snd (JsonRequest L c m u rd w)) = sent w @ [outgoing L c req (ReqHeaders rd)])"
proof (cases rule: JsonRequest_cases [of L c m u rd w])
  case (early e)
  then show ?thesis by simp
next
  case (dispatched req body)
  let ?S = "sendRequest L c req (ReqHeaders rd) (ExpectedStatus rd) body w"
  have "sent (snd (JsonRequest L c m u rd w)) = sent (snd ?S)"
    unfolding dispatched(2) by (simp split: prod.splits option.splits)
  then have "sent (snd (JsonRequest L c m u rd w)) = sent w @ [outgoing L c req (ReqHeaders rd)]"
    by (simp add: sendRequest_sent)
  with dispatched(1) show ?thesis
    by blast
qed

lemma BinaryRequest_sent_cases:
  "sent (snd (BinaryRequest L c m u rd w)) = sent w \<or>
   (\<exists>req. Header req = Header_Add (CanonicalMIMEHeaderKey L)
             (Header_Add (CanonicalMIMEHeaderKey L) Map.empty ''Content-Type'' ''application/octet-stream'')
             ''Accept'' ''application/octet-stream''
      \<and> sent (snd (BinaryRequest L c m u rd w)) = sent w @ [outgoing L c req (ReqHeaders rd)])"
proof (cases rule: BinaryRequest_cases [of L c m u rd w])
  case (early e)
  then show ?thesis by simp
next
  case (dispatched req)
  let ?S = "sendRequest L c req (ReqHeaders rd) (ExpectedStatus rd)
              (case ReqData rd of None \<Rightarrow> [] | Some d \<Rightarrow> d) w"
  have "sent (snd (BinaryRequest L c m u rd w)) = sent (snd ?S)"
    unfolding dispatched(2) by (simp split: prod.splits option.splits)
  then have "sent (snd (BinaryRequest L c m u rd w)) = sent w @ [outgoing L c req (ReqHeaders rd)]"
    by (simp add: sendRequest_sent)
  with dispatched(1) show ?thesis
    by blast
qed

lemma JsonRequest_error_frame:
  assumes "JsonRequest L c m u rd w = ((err, rd'), w')"
    and "isExecutionFailure err \<or> isUnexpectedStatus err"
  shows "rd' = rd"
  using assms
  by (auto simp: JsonRequest_def Let_def AddContext_def split: prod.splits sum.splits option.splits if_splits)

lemma BinaryRequest_error_frame:
  assumes "BinaryRequest L c m u rd w = ((err, rd'), w')"
    and "isExecutionFailure err \<or> isUnexpectedStatus err"
  shows "rd' = rd"
  using assms
  by (auto simp: BinaryRequest_def Let_def AddContext_def split: prod.splits sum.splits option.splits if_splits)

lemma JsonRequest_no_destination:
  assumes "Do c (net w) r = (Inr resp, n)"
    and "StatusCode resp \<in> set (acceptedStatuses (ExpectedStatus rd))"
    and "BodyErr resp = None"
    and "sent (snd (JsonRequest L c m u rd w)) = sent w @ [r]"
    and "RespValue rd = None \<or> Body resp = []"
  shows "JsonRequest L c m u rd w = ((None, rd), w\<lparr>net := n, sent := sent w @ [r]\<rparr>)"
proof (cases rule: JsonRequest_cases [of L c m u rd w])
  case (early e)
  with assms(4) show ?thesis by simp
next
  case (dispatched req body)
  let ?S = "sendRequest L c req (ReqHeaders rd) (ExpectedStatus rd) body w"
  have "sent (snd (JsonRequest L c m u rd w)) = sent (snd ?S)"
    unfolding dispatched(2) by (simp split: prod.splits option.splits)
  with assms(4) have r: "r = outgoing L c req (ReqHeaders rd)"
    by (simp add: sendRequest_sent)
  have "?S = ((Body resp, None), w\<lparr>net := n, sent := sent w @ [r]\<rparr>)"
    using sendRequest_response [OF assms(1) [unfolded r], of "ExpectedStatus rd" body] assms(2,3)
    by (simp add: r)
  then show ?thesis
    unfolding dispatched(2) using assms(5) by auto
qed

lemma BinaryRequest_result:
  assumes "Do c (net w) r = (Inr resp, n)"
    and "StatusCode resp \<in> set (acceptedStatuses (ExpectedStatus rd))"
    and "BodyErr resp = None"
    and "sent (snd (BinaryRequest L c m u rd w)) = sent w @ [r]"
  shows "BinaryRequest L c m u rd w =
           ((None, if Body resp = [] \<or> RespData rd = None then rd else rd\<lparr>RespData := Some (Body resp)\<rparr>),
            w\<lparr>net := n, sent := sent w @ [r]\<rparr>)"
proof (cases rule: BinaryRequest_cases [of L c m u rd w])
  case (early e)
  with assms(4) show ?thesis by simp
next
  case (dispatched req)
  let ?S = "sendRequest L c req (ReqHeaders rd) (ExpectedStatus rd)
              (case ReqData rd of None \<Rightarrow> [] | Some d \<Rightarrow> d) w"
  have "sent (snd (BinaryRequest L c m u rd w)) = sent (snd ?S)"
    unfolding dispatched(2) by (simp split: prod.splits option.splits)
  with assms(4) have r: "r = outgoing L c req (ReqHeaders rd)"
    by (simp add: sendRequest_sent)
  have "?S = ((Body resp, None), w\<lparr>net := n, sent := sent w @ [r]\<rparr>)"
    using sendRequest_response [OF assms(1) [unfolded r], of "ExpectedStatus rd"
        "case ReqData rd of None \<Rightarrow> [] | Some d \<Rightarrow> d"] assms(2,3)
    by (simp add: r)
  then show ?thesis
    unfolding dispatched(2) by (auto split: option.splits)
qed

lemma BinaryRequest_success:
  assumes "BinaryRequest L c m u rd w = ((None, rd'), w')"
  shows "\<exists>r resp n. sent w' = sent w @ [r] \<and> Do c (net w) r = (Inr resp, n)
           \<and> StatusCode resp \<in> set (acceptedStatuses (ExpectedStatus rd)) \<and> BodyErr resp = None"
proof (cases rule: BinaryRequest_cases [of L c m u rd w])
  case (early e)
  with assms show ?thesis by simp
next
  case (dispatched req)
  let ?r = "outgoing L c req (ReqHeaders rd)"
  let ?p = "case ReqData rd of None \<Rightarrow> [] | Some d \<Rightarrow> d"
  let ?S = "sendRequest L c req (ReqHeaders rd) (ExpectedStatus rd) ?p w"
  have "sent (snd (BinaryRequest L c m u rd w)) = sent (snd ?S)"
    unfolding dispatched(2) by (simp split: prod.splits option.splits)
  with assms have s: "sent w' = sent w @ [?r]"
    by (simp add: sendRequest_sent)
  have ok: "snd (fst ?S) = None"
    using assms unfolding dispatched(2) by (auto split: prod.splits option.splits if_splits)
  obtain x n where d: "Do c (net w) ?r = (x, n)" by (cases "Do c (net w) ?r")
  show ?thesis
  proof (cases x)
    case (Inl e)
    with d ok show ?thesis
      by (simp add: sendRequest_failure)
  next
    case (Inr resp)
    with d have d': "Do c (net w) ?r = (Inr resp, n)" by simp
    from ok have "StatusCode resp \<in> set (acceptedStatuses (ExpectedStatus rd)) \<and> BodyErr resp = None"
      by (simp add: sendRequest_response [OF d'] split: if_splits)
    with s d' show ?thesis by blast
  qed
qed

text \<open>The definitions to unfold when a call is evaluated on the simulated collaborators.\<close>

lemmas run = JsonRequest_def BinaryRequest_def NewRequest_def sendRequest_def clientDo_def
  outgoing_def errorInfo_def Header_Get_def Header_Add_def AddContext_def StatusOK_def Let_def
  testlib_def reply_def throttled_def always_def world0_def emptyRequestData_def

subsection \<open>The detail of an unexpected status\<close>

text \<open>
  The detail is the decoded \<^verbatim>\<open>ErrorResponse\<close> exactly when the first \<^verbatim>\<open>Content-Type\<close> value is
  \<^verbatim>\<open>application/json\<close> and \<^verbatim>\<open>json.Unmarshal\<close> returns no error; otherwise it is the body.
\<close>

lemma sendRequest_error_detail:
  assumes "Do c (net w) (outgoing L c req hs) = (Inr resp, n)"
    and "StatusCode resp \<notin> set (acceptedStatuses ex)"
  shows "\<exists>detail. sendRequest L c req hs ex p w =
            (([], Some (UnexpectedStatus (URL (outgoing L c req hs)) (Status resp) detail p)),
             w\<lparr>net := n, sent := sent w @ [outgoing L c req hs]\<rparr>) \<and>
          (\<forall>t. detail = Decoded t \<longleftrightarrow>
                 Header_Get (CanonicalMIMEHeaderKey L) (RespHeader resp) ''Content-Type'' = ''application/json''
                 \<and> (\<exists>wrappedErr. UnmarshalErrorWrapper L (Body resp) = Inr wrappedErr
                                  \<and> t = Error wrappedErr)) \<and>
          ((\<forall>t. detail \<noteq> Decoded t) \<longrightarrow> detail = RawBody (Body resp))"
  using assms(2)
  by (auto simp: sendRequest_response [OF assms(1)] errorInfo_def Let_def split: sum.splits if_splits)

text \<open>
  \<^verbatim>\<open>json.Unmarshal\<close> returns no error, and stores nothing, for \<^verbatim>\<open>null\<close> and for every object
  none of whose keys selects the field \<^verbatim>\<open>error\<close>.
\<close>

lemma storeErrorWrapperMembers_skipped:
  "\<forall>kv \<in> set members. findField (EqualFold L) [''error''] (fst kv) = None \<Longrightarrow>
     storeErrorWrapperMembers L members wrapped = Inr wrapped"
  by (induction members) auto

lemma UnmarshalErrorWrapper_other_object:
  assumes "ParseJSON L b = Inr (JObject members)"
    and "\<forall>kv \<in> set members. findField (EqualFold L) [''error''] (fst kv) = None"
  shows "UnmarshalErrorWrapper L b = Inr zeroErrorWrapper"
  using assms(1) storeErrorWrapperMembers_skipped [OF assms(2)]
  by (simp add: UnmarshalErrorWrapper_def storeErrorWrapper_def)

lemma UnmarshalErrorWrapper_null:
  "ParseJSON L b = Inr JNull \<Longrightarrow> UnmarshalErrorWrapper L b = Inr zeroErrorWrapper"
  by (simp add: UnmarshalErrorWrapper_def storeErrorWrapper_def)

text \<open>The two bodies, read by the stand-in library.\<close>

lemmas scan = parseJSON_def lexPlain_def isSpace_def isWordChar_def flushWord_def
  validNumber_def validFrac_def validExp_def isDigit_def openValue_def closeFrame_def
  readKey_def unescape_def

lemma fooBody_parsed:
  "parseJSON fooBody = Some (JObject [(''foo'', JString ''bar'')])"
  by (simp add: fooBody_def scan)

lemma quotaBody_parsed:
  "parseJSON quotaBody =
     Some (JObject [(''error'', JObject [(''message'', JString ''quota exceeded''),
                                         (''code'', JNumber ''413''),
                                         (''title'', JString ''Over Limit'')])])"
  by (simp add: quotaBody_def scan)

text \<open>
  The scenario of the specification: the envelope with the content type \<^verbatim>\<open>application/json\<close>
  gives the triple; the same envelope under \<^verbatim>\<open>application/json; charset=utf-8\<close>, and the
  body \<^verbatim>\<open>boom\<close> under \<^verbatim>\<open>text/plain\<close>, give the body.
\<close>

lemma errorInfo_envelope:
  "errorInfo testlib (reply 413 ''413 Request Entity Too Large'' ''application/json'' quotaBody)
     = Decoded \<lparr>Message = ''quota exceeded'', Code = 413, Title = ''Over Limit''\<rparr>"
  by (simp add: errorInfo_def Header_Get_def testlib_def reply_def UnmarshalErrorWrapper_def
      quotaBody_parsed storeErrorWrapper_def storeErrorResponse_def storeErrorResponseField_def
      storeString_def storeInt_def findField_def equalFoldASCII_def lowerASCII_def
      zeroErrorWrapper_def parseInt_def digitValue_def isDigit_def)

lemma errorInfo_charset:
  "errorInfo testlib
       (reply 413 ''413 Request Entity Too Large'' ''application/json; charset=utf-8'' quotaBody)
     = RawBody quotaBody"
  by (simp add: errorInfo_def Header_Get_def testlib_def reply_def)

lemma errorInfo_plain_text:
  "errorInfo testlib (reply 413 ''413 Request Entity Too Large'' ''text/plain'' ''boom'')
     = RawBody ''boom''"
  by (simp add: errorInfo_def Header_Get_def testlib_def reply_def)

section \<open>The claims\<close>

text \<open>
  C1. The claim: when the transport answers the first \<open>k\<close> attempts with 429 and the next one
  with a success, the call sends the request again after each 429 and succeeds after \<open>k\<close>
  retries. The code at \<open>k = 1\<close>: \<open>JsonRequest\<close> hands one request to the transport, takes the
  429 as an unexpected status and returns that error; nothing is sent a second time and
  nothing is printed.
\<close>

theorem C1_throttled_once_no_retry:
  "JsonRequest testlib
       \<lparr>Do = throttled 1 (reply 429 ''429 Too Many Requests'' ''text/plain'' ''slow down'')
                          (reply 200 ''200 OK'' ''application/json'' ''[]''),
          AuthToken = ''tok''\<rparr>
       ''GET'' ''http://h/v2/servers'' emptyRequestData world0
   = ((Some (UnexpectedStatus ''http://h/v2/servers'' ''429 Too Many Requests''
               (RawBody ''slow down'') []),
       emptyRequestData),
      \<lparr>net = 1,
         sent = [\<lparr>Method = ''GET'', URL = ''http://h/v2/servers'',
                   Header = [''Content-Type'' \<mapsto> [''application/json''],
                             ''Accept'' \<mapsto> [''application/json''],
                             ''X-Auth-Token'' \<mapsto> [''tok'']],
                   ReqBody = None\<rparr>],
         stdout = []\<rparr>)"
  by (simp add: run)

text \<open>
  C2. The claim: the detail of the error is the decoded triple exactly when the content type
  is JSON and the body decodes as the envelope, and the raw body for any other shape. The
  code at a response \<^verbatim>\<open>404\<close> with the content type \<^verbatim>\<open>application/json\<close> and the body
  \<^verbatim>\<open>{"foo":"bar"}\<close>: \<^verbatim>\<open>json.Unmarshal\<close> skips the key \<^verbatim>\<open>foo\<close> and returns no error, so the detail
  is the \<^verbatim>\<open>ErrorResponse\<close> with the empty message, the code 0 and the empty title, and the
  body is not in the error.
\<close>

theorem C2_other_shape_zero_triple:
  "sendRequest testlib
       \<lparr>Do = always (reply 404 ''404 Not Found'' ''application/json'' fooBody), AuthToken = ''''\<rparr>
       \<lparr>Method = ''GET'', URL = ''http://h/c'', Header = Map.empty, ReqBody = None\<rparr>
       None [] ''payload'' world0
   = (([], Some (UnexpectedStatus ''http://h/c'' ''404 Not Found''
                   (Decoded \<lparr>Message = [], Code = 0, Title = []\<rparr>) ''payload'')),
      \<lparr>net = 1,
         sent = [\<lparr>Method = ''GET'', URL = ''http://h/c'', Header = Map.empty, ReqBody = None\<rparr>],
         stdout = []\<rparr>)"
  by (simp add: run UnmarshalErrorWrapper_def fooBody_parsed storeErrorWrapper_def findField_def
      equalFoldASCII_def lowerASCII_def zeroErrorWrapper_def)

text \<open>
  C3. With an empty \<open>ExpectedStatus\<close> list a response is taken as a success exactly when its
  status code is 200; with a non-empty list, exactly when its code is a member of the list.
  Every other code, 201 included, gives the unexpected-status error.
\<close>

theorem C3_status_classification:
  assumes "Do c (net w) (outgoing L c req hs) = (Inr resp, n)"
  shows "(isUnexpectedStatus (snd (fst (sendRequest L c req hs [] p w))) \<longleftrightarrow> StatusCode resp \<noteq> 200) \<and>
         (ex \<noteq> [] \<longrightarrow>
            (isUnexpectedStatus (snd (fst (sendRequest L c req hs ex p w))) \<longleftrightarrow> StatusCode resp \<notin> set ex))"
  by (cases "BodyErr resp") (simp_all add: sendRequest_response [OF assms] acceptedStatuses_def AddContext_def)

theorem C3_status_classification_witness:
  "isUnexpectedStatus (snd (fst (sendRequest testlib \<lparr>Do = always (reply 201 ''201 Created'' ''text/plain'' ''made''), AuthToken = ''''\<rparr>
       \<lparr>Method = ''PUT'', URL = ''http://h/c'', Header = Map.empty, ReqBody = None\<rparr> None [] '''' world0)))
   \<and> \<not> isUnexpectedStatus (snd (fst (sendRequest testlib \<lparr>Do = always (reply 201 ''201 Created'' ''text/plain'' ''made''), AuthToken = ''''\<rparr>
       \<lparr>Method = ''PUT'', URL = ''http://h/c'', Header = Map.empty, ReqBody = None\<rparr> None [202, 201] '''' world0)))"
proof -
  let ?resp = "reply 201 ''201 Created'' ''text/plain'' ''made''"
  let ?c = "\<lparr>Do = always ?resp, AuthToken = ''''\<rparr>"
  let ?req = "\<lparr>Method = ''PUT'', URL = ''http://h/c'', Header = Map.empty, ReqBody = None\<rparr>"
  have a: "Do ?c (net world0) (outgoing testlib ?c ?req None) = (Inr ?resp, 1)"
    by (simp add: always_def world0_def)
  have b: "StatusCode ?resp = 201"
    by (simp add: reply_def)
  show ?thesis
    using C3_status_classification [OF a, of "''''" "[202, 201]"] by (simp add: b)
qed

text \<open>
  C4. \<open>sendRequest\<close> hands exactly one request to the transport. When the client's token is
  not empty, that request has, under the key \<^verbatim>\<open>X-Auth-Token\<close>, the values the key has once the
  caller's extra headers are merged, followed by the token, and every other key is as merged.
  When the token is empty, the header is the merged one: the client adds no token header.
\<close>

theorem C4_auth_token:
  "\<exists>r. sent (snd (sendRequest L c req hs ex p w)) = sent w @ [r] \<and>
     (AuthToken c \<noteq> [] \<longrightarrow>
        Header r (CanonicalMIMEHeaderKey L ''X-Auth-Token'') =
          Some (valuesOf (mergedHeaders (CanonicalMIMEHeaderKey L) (Header req) hs)
                  (CanonicalMIMEHeaderKey L ''X-Auth-Token'') @ [AuthToken c])
        \<and> (\<forall>k. k \<noteq> CanonicalMIMEHeaderKey L ''X-Auth-Token'' \<longrightarrow>
               Header r k = mergedHeaders (CanonicalMIMEHeaderKey L) (Header req) hs k)) \<and>
     (AuthToken c = [] \<longrightarrow>
        Header r = mergedHeaders (CanonicalMIMEHeaderKey L) (Header req) hs)"
proof (intro exI conjI)
  show "sent (snd (sendRequest L c req hs ex p w)) = sent w @ [outgoing L c req hs]"
    by (rule sendRequest_sent)
next
  show "AuthToken c \<noteq> [] \<longrightarrow>
        Header (outgoing L c req hs) (CanonicalMIMEHeaderKey L ''X-Auth-Token'') =
          Some (valuesOf (mergedHeaders (CanonicalMIMEHeaderKey L) (Header req) hs)
                  (CanonicalMIMEHeaderKey L ''X-Auth-Token'') @ [AuthToken c])
        \<and> (\<forall>k. k \<noteq> CanonicalMIMEHeaderKey L ''X-Auth-Token'' \<longrightarrow>
               Header (outgoing L c req hs) k = mergedHeaders (CanonicalMIMEHeaderKey L) (Header req) hs k)"
    by (simp add: outgoing_Header Header_Add_apply)
next
  show "AuthToken c = [] \<longrightarrow>
        Header (outgoing L c req hs) = mergedHeaders (CanonicalMIMEHeaderKey L) (Header req) hs"
    by (simp add: outgoing_Header)
qed

theorem C4_auth_token_witness:
  "(\<exists>r. sent (snd (sendRequest testlib
            \<lparr>Do = always (reply 200 ''200 OK'' ''application/json'' ''[]''), AuthToken = ''tok''\<rparr>
            \<lparr>Method = ''GET'', URL = ''http://h/c'', Header = Map.empty, ReqBody = None\<rparr>
            (Some [(''X-Auth-Token'', [''forged''])]) [] '''' world0)) = [r]
         \<and> Header r ''X-Auth-Token'' = Some [''forged'', ''tok''])
   \<and> (\<exists>r. sent (snd (sendRequest testlib
            \<lparr>Do = always (reply 200 ''200 OK'' ''application/json'' ''[]''), AuthToken = ''''\<rparr>
            \<lparr>Method = ''GET'', URL = ''http://h/c'', Header = Map.empty, ReqBody = None\<rparr>
            None [] '''' world0)) = [r]
         \<and> Header r ''X-Auth-Token'' = None)"
proof -
  let ?resp = "reply 200 ''200 OK'' ''application/json'' ''[]''"
  let ?req = "\<lparr>Method = ''GET'', URL = ''http://h/c'', Header = Map.empty, ReqBody = None\<rparr>"
  have canon: "CanonicalMIMEHeaderKey testlib = (\<lambda>key. key)"
    by (simp add: testlib_def)
  have m1: "mergedHeaders (\<lambda>key. key) (Header ?req) (Some [(''X-Auth-Token'', [''forged''])])
              = [''X-Auth-Token'' \<mapsto> [''forged'']]"
    by (simp add: mergedHeaders_def Header_Add_def)
  have m2: "mergedHeaders (\<lambda>key. key) (Header ?req) None = Map.empty"
    by (simp add: mergedHeaders_def)
  have one: "\<exists>r. sent (snd (sendRequest testlib \<lparr>Do = always ?resp, AuthToken = ''tok''\<rparr> ?req
                 (Some [(''X-Auth-Token'', [''forged''])]) [] '''' world0)) = [r]
         \<and> Header r ''X-Auth-Token'' = Some [''forged'', ''tok'']"
    using C4_auth_token [of testlib "\<lparr>Do = always ?resp, AuthToken = ''tok''\<rparr>" ?req
        "Some [(''X-Auth-Token'', [''forged''])]" "[]" "''''" world0]
    unfolding canon m1 by (auto simp: world0_def valuesOf_def)
  have two: "\<exists>r. sent (snd (sendRequest testlib \<lparr>Do = always ?resp, AuthToken = ''''\<rparr> ?req
                 None [] '''' world0)) = [r]
         \<and> Header r ''X-Auth-Token'' = None"
    using C4_auth_token [of testlib "\<lparr>Do = always ?resp, AuthToken = ''''\<rparr>" ?req
        None "[]" "''''" world0]
    unfolding canon m2 by (auto simp: world0_def)
  from one two show ?thesis by blast
qed

text \<open>
  C5, as amended. When \<open>BinaryRequest\<close> returns no error and \<open>RespData\<close> is not nil, one
  request was sent, the transport answered it with a response, and the destination holds
  the body of that response if the body is not empty; if the body is empty, the destination
  keeps what it held before the call (the guard \<^verbatim>\<open>len(respBody) > 0\<close> of line 132).
\<close>

theorem C5_binary_body_delivered:
  assumes "BinaryRequest L c m u rd w = ((None, rd'), w')"
    and "RespData rd = Some old"
  shows "\<exists>r resp. sent w' = sent w @ [r] \<and> fst (Do c (net w) r) = Inr resp
           \<and> RespData rd' = Some (if Body resp = [] then old else Body resp)"
proof -
  from BinaryRequest_success [OF assms(1)] obtain r resp n where
    s: "sent w' = sent w @ [r]" and d: "Do c (net w) r = (Inr resp, n)"
    and a: "StatusCode resp \<in> set (acceptedStatuses (ExpectedStatus rd))" and b: "BodyErr resp = None"
    by blast
  from s assms(1) have "sent (snd (BinaryRequest L c m u rd w)) = sent w @ [r]"
    by simp
  from BinaryRequest_result [OF d a b this] assms
  have "RespData rd' = Some (if Body resp = [] then old else Body resp)"
    by auto
  with s d show ?thesis by force
qed

theorem C5_binary_body_delivered_witness:
  "RespData (snd (fst (BinaryRequest testlib
       \<lparr>Do = always (reply 200 ''200 OK'' ''application/octet-stream'' ''data''), AuthToken = ''tok''\<rparr>
       ''GET'' ''http://h/c/o'' (emptyRequestData\<lparr>RespData := Some ''old''\<rparr>) world0))) = Some ''data''"
proof -
  let ?resp = "reply 200 ''200 OK'' ''application/octet-stream'' ''data''"
  let ?c = "\<lparr>Do = always ?resp, AuthToken = ''tok''\<rparr>"
  let ?rd = "emptyRequestData\<lparr>RespData := Some ''old''\<rparr>"
  let ?B = "BinaryRequest testlib ?c ''GET'' ''http://h/c/o'' ?rd world0"
  have "fst (fst ?B) = None"
    by (simp add: run)
  then have a: "?B = ((None, snd (fst ?B)), snd ?B)"
    by (simp add: prod_eq_iff)
  have b: "RespData ?rd = Some ''old''"
    by simp
  from C5_binary_body_delivered [OF a b] obtain r resp where
    d: "fst (Do ?c (net world0) r) = Inr resp"
    and e: "RespData (snd (fst ?B)) = Some (if Body resp = [] then ''old'' else Body resp)"
    by blast
  from d have "resp = ?resp"
    by (simp add: always_def)
  with e show ?thesis
    by (simp add: reply_def)
qed

text \<open>
  The claim as stated fails on an empty body: the call succeeds, the transport returned no
  bytes, and the destination still holds its three old bytes.
\<close>

theorem C5_empty_body_counterexample:
  "fst (fst (BinaryRequest testlib
       \<lparr>Do = always (reply 200 ''200 OK'' ''application/octet-stream'' []), AuthToken = ''tok''\<rparr>
       ''GET'' ''http://h/c/o'' (emptyRequestData\<lparr>RespData := Some ''old''\<rparr>) world0)) = None
   \<and> RespData (snd (fst (BinaryRequest testlib
       \<lparr>Do = always (reply 200 ''200 OK'' ''application/octet-stream'' []), AuthToken = ''tok''\<rparr>
       ''GET'' ''http://h/c/o'' (emptyRequestData\<lparr>RespData := Some ''old''\<rparr>) world0))) = Some ''old''
   \<and> Body (reply 200 ''200 OK'' ''application/octet-stream'' []) = []"
  by (simp add: run)

text \<open>
  C6, as amended. When the transport answers every request with 429 and 429 is not among
  the accepted status codes of the call (the \<open>ExpectedStatus\<close> list, or 200 when it is empty),
  \<open>sendRequest\<close> returns the unexpected-status error, and \<open>JsonRequest\<close> and \<open>BinaryRequest\<close>
  return an error. All three are total functions: the call returns.
\<close>

theorem C6_always_throttled:
  assumes "\<forall>n r. \<exists>busy n'. Do c n r = (Inr busy, n') \<and> StatusCode busy = 429"
    and "429 \<notin> set (acceptedStatuses (ExpectedStatus rd))"
  shows "isUnexpectedStatus (snd (fst (sendRequest L c req hs (ExpectedStatus rd) p w)))
       \<and> fst (fst (JsonRequest L c m u rd w)) \<noteq> None
       \<and> fst (fst (BinaryRequest L c m u rd w)) \<noteq> None"
proof (intro conjI)
  show "isUnexpectedStatus (snd (fst (sendRequest L c req hs (ExpectedStatus rd) p w)))"
    by (rule always_throttled_failure [OF assms])
next
  show "fst (fst (JsonRequest L c m u rd w)) \<noteq> None"
  proof (cases rule: JsonRequest_cases [of L c m u rd w])
    case (early e)
    then show ?thesis by simp
  next
    case (dispatched req' body)
    have "isUnexpectedStatus (snd (fst (sendRequest L c req' (ReqHeaders rd) (ExpectedStatus rd) body w)))"
      by (rule always_throttled_failure [OF assms])
    then show ?thesis
      unfolding dispatched(2) by (auto split: prod.splits option.splits)
  qed
next
  show "fst (fst (BinaryRequest L c m u rd w)) \<noteq> None"
  proof (cases rule: BinaryRequest_cases [of L c m u rd w])
    case (early e)
    then show ?thesis by simp
  next
    case (dispatched req')
    have "isUnexpectedStatus (snd (fst (sendRequest L c req' (ReqHeaders rd) (ExpectedStatus rd)
            (case ReqData rd of None \<Rightarrow> [] | Some d \<Rightarrow> d) w)))"
      by (rule always_throttled_failure [OF assms])
    then show ?thesis
      unfolding dispatched(2) by (auto split: prod.splits option.splits)
  qed
qed

theorem C6_always_throttled_witness:
  "isUnexpectedStatus (snd (fst (sendRequest testlib
       \<lparr>Do = always (reply 429 ''429 Too Many Requests'' ''text/plain'' ''slow down''), AuthToken = ''''\<rparr>
       \<lparr>Method = ''GET'', URL = ''http://h/c'', Header = Map.empty, ReqBody = None\<rparr>
       None (ExpectedStatus emptyRequestData) ''payload'' world0)))
   \<and> fst (fst (JsonRequest testlib
       \<lparr>Do = always (reply 429 ''429 Too Many Requests'' ''text/plain'' ''slow down''), AuthToken = ''''\<rparr>
       ''GET'' ''http://h/c'' emptyRequestData world0)) \<noteq> None
   \<and> fst (fst (BinaryRequest testlib
       \<lparr>Do = always (reply 429 ''429 Too Many Requests'' ''text/plain'' ''slow down''), AuthToken = ''''\<rparr>
       ''GET'' ''http://h/c'' emptyRequestData world0)) \<noteq> None"
proof -
  let ?busy = "reply 429 ''429 Too Many Requests'' ''text/plain'' ''slow down''"
  let ?c = "\<lparr>Do = always ?busy, AuthToken = ''''\<rparr>"
  have h1: "\<forall>n r. \<exists>busy n'. Do ?c n r = (Inr busy, n') \<and> StatusCode busy = 429"
    by (simp add: always_def reply_def)
  have h2: "429 \<notin> set (acceptedStatuses (ExpectedStatus emptyRequestData))"
    by (simp add: acceptedStatuses_def emptyRequestData_def)
  show ?thesis
    using C6_always_throttled [OF h1 h2, of testlib] by blast
qed

text \<open>
  The claim as stated fails when the caller lists 429 in \<open>ExpectedStatus\<close>: the status is
  then accepted like any listed code, and the call returns no error.
\<close>

theorem C6_listed_status_counterexample:
  "JsonRequest testlib
       \<lparr>Do = always (reply 429 ''429 Too Many Requests'' ''text/plain'' ''slow down''),
          AuthToken = ''''\<rparr>
       ''GET'' ''http://h/v2/servers'' (emptyRequestData\<lparr>ExpectedStatus := [429]\<rparr>) world0
   = ((None, emptyRequestData\<lparr>ExpectedStatus := [429]\<rparr>),
      \<lparr>net = 1,
         sent = [\<lparr>Method = ''GET'', URL = ''http://h/v2/servers'',
                   Header = [''Content-Type'' \<mapsto> [''application/json''],
                             ''Accept'' \<mapsto> [''application/json'']],
                   ReqBody = None\<rparr>],
         stdout = []\<rparr>)"
  by (simp add: run)

text \<open>
  C7. When the request value cannot be encoded, \<open>JsonRequest\<close> returns the encoding error
  wrapped with the marshalling context at once: the world is the one before the call (no
  request was made or sent, nothing was printed) and the descriptor is unchanged.
\<close>

theorem C7_marshal_failure:
  assumes "ReqValue reqData = Some v" and "Marshal L v = Inl e"
  shows "JsonRequest L c method url reqData w =
           ((Some (AddContext e ''failed marshalling the request body'' []), reqData), w)"
  using assms by (simp add: JsonRequest_def)

theorem C7_marshal_failure_witness:
  "JsonRequest testlib \<lparr>Do = always (reply 200 ''200 OK'' ''application/json'' ''{}''), AuthToken = ''tok''\<rparr>
      ''POST'' ''http://h/v2/servers'' (emptyRequestData\<lparr>ReqValue := Some GChan, RespValue := Some ''old''\<rparr>) world0
   = ((Some (Context ''failed marshalling the request body'' [] (External ''json: unsupported type: chan int'')),
       emptyRequestData\<lparr>ReqValue := Some GChan, RespValue := Some ''old''\<rparr>), world0)"
proof -
  have a: "ReqValue (emptyRequestData\<lparr>ReqValue := Some GChan, RespValue := Some ''old''\<rparr>) = Some GChan"
    by simp
  have b: "Marshal testlib GChan = Inl (External ''json: unsupported type: chan int'')"
    by (simp add: testlib_def)
  show ?thesis
    using C7_marshal_failure [OF a b] by (simp add: AddContext_def)
qed

text \<open>
  C8. Let a call send the request \<open>r\<close> and the transport answer it with a response of an
  accepted status whose body is read without error. If the destination of the call's kind
  is nil (\<open>RespValue\<close> for \<open>JsonRequest\<close>, \<open>RespData\<close> for \<open>BinaryRequest\<close>) or the body is
  empty, the call returns no error, the descriptor is unchanged (nothing was decoded or
  written) and nothing was printed: the world differs by the exchange only.
\<close>

theorem C8_no_destination_no_write:
  assumes "Do c (net w) r = (Inr resp, n)"
    and "StatusCode resp \<in> set (acceptedStatuses (ExpectedStatus rd))"
    and "BodyErr resp = None"
  shows "(sent (snd (JsonRequest L c m u rd w)) = sent w @ [r] \<and> (RespValue rd = None \<or> Body resp = [])
            \<longrightarrow> JsonRequest L c m u rd w = ((None, rd), w\<lparr>net := n, sent := sent w @ [r]\<rparr>))
       \<and> (sent (snd (BinaryRequest L c m u rd w)) = sent w @ [r] \<and> (RespData rd = None \<or> Body resp = [])
            \<longrightarrow> BinaryRequest L c m u rd w = ((None, rd), w\<lparr>net := n, sent := sent w @ [r]\<rparr>))"
proof (intro conjI impI)
  assume a: "sent (snd (JsonRequest L c m u rd w)) = sent w @ [r] \<and> (RespValue rd = None \<or> Body resp = [])"
  show "JsonRequest L c m u rd w = ((None, rd), w\<lparr>net := n, sent := sent w @ [r]\<rparr>)"
    by (rule JsonRequest_no_destination [OF assms conjunct1 [OF a] conjunct2 [OF a]])
next
  assume a: "sent (snd (BinaryRequest L c m u rd w)) = sent w @ [r] \<and> (RespData rd = None \<or> Body resp = [])"
  show "BinaryRequest L c m u rd w = ((None, rd), w\<lparr>net := n, sent := sent w @ [r]\<rparr>)"
    using BinaryRequest_result [OF assms conjunct1 [OF a]] conjunct2 [OF a] by auto
qed

theorem C8_no_destination_no_write_witness:
  "JsonRequest testlib \<lparr>Do = always (reply 200 ''200 OK'' ''application/json'' ''[1]''), AuthToken = ''tok''\<rparr>
       ''GET'' ''http://h/c'' (emptyRequestData\<lparr>RespData := Some ''old''\<rparr>) world0
     = ((None, emptyRequestData\<lparr>RespData := Some ''old''\<rparr>),
        \<lparr>net = 1,
           sent = [\<lparr>Method = ''GET'', URL = ''http://h/c'',
                     Header = [''Content-Type'' \<mapsto> [''application/json''],
                               ''Accept'' \<mapsto> [''application/json''],
                               ''X-Auth-Token'' \<mapsto> [''tok'']],
                     ReqBody = None\<rparr>],
           stdout = []\<rparr>)
   \<and> BinaryRequest testlib \<lparr>Do = always (reply 200 ''200 OK'' ''text/plain'' []), AuthToken = ''tok''\<rparr>
       ''GET'' ''http://h/c'' (emptyRequestData\<lparr>RespData := Some ''old''\<rparr>) world0
     = ((None, emptyRequestData\<lparr>RespData := Some ''old''\<rparr>),
        \<lparr>net = 1,
           sent = [\<lparr>Method = ''GET'', URL = ''http://h/c'',
                     Header = [''Content-Type'' \<mapsto> [''application/octet-stream''],
                               ''Accept'' \<mapsto> [''application/octet-stream''],
                               ''X-Auth-Token'' \<mapsto> [''tok'']],
                     ReqBody = None\<rparr>],
           stdout = []\<rparr>)"
proof -
  let ?respJ = "reply 200 ''200 OK'' ''application/json'' ''[1]''"
  let ?respB = "reply 200 ''200 OK'' ''text/plain'' []"
  let ?cJ = "\<lparr>Do = always ?respJ, AuthToken = ''tok''\<rparr>"
  let ?cB = "\<lparr>Do = always ?respB, AuthToken = ''tok''\<rparr>"
  let ?rd = "emptyRequestData\<lparr>RespData := Some ''old''\<rparr>"
  let ?rJ = "\<lparr>Method = ''GET'', URL = ''http://h/c'',
                     Header = [''Content-Type'' \<mapsto> [''application/json''],
                               ''Accept'' \<mapsto> [''application/json''],
                               ''X-Auth-Token'' \<mapsto> [''tok'']],
                     ReqBody = None\<rparr>"
  let ?rB = "\<lparr>Method = ''GET'', URL = ''http://h/c'',
                     Header = [''Content-Type'' \<mapsto> [''application/octet-stream''],
                               ''Accept'' \<mapsto> [''application/octet-stream''],
                               ''X-Auth-Token'' \<mapsto> [''tok'']],
                     ReqBody = None\<rparr>"
  have j1: "Do ?cJ (net world0) ?rJ = (Inr ?respJ, 1)"
    by (simp add: always_def world0_def)
  have j2: "StatusCode ?respJ \<in> set (acceptedStatuses (ExpectedStatus ?rd))"
    by (simp add: reply_def acceptedStatuses_def emptyRequestData_def)
  have j3: "BodyErr ?respJ = None"
    by (simp add: reply_def)
  have j4: "sent (snd (JsonRequest testlib ?cJ ''GET'' ''http://h/c'' ?rd world0)) = sent world0 @ [?rJ]"
    by (simp add: run)
  have j5: "RespValue ?rd = None"
    by (simp add: emptyRequestData_def)
  have b1: "Do ?cB (net world0) ?rB = (Inr ?respB, 1)"
    by (simp add: always_def world0_def)
  have b2: "StatusCode ?respB \<in> set (acceptedStatuses (ExpectedStatus ?rd))"
    by (simp add: reply_def acceptedStatuses_def emptyRequestData_def)
  have b3: "BodyErr ?respB = None"
    by (simp add: reply_def)
  have b4: "sent (snd (BinaryRequest testlib ?cB ''GET'' ''http://h/c'' ?rd world0)) = sent world0 @ [?rB]"
    by (simp add: run)
  have b5: "Body ?respB = []"
    by (simp add: reply_def)
  have J: "JsonRequest testlib ?cJ ''GET'' ''http://h/c'' ?rd world0
             = ((None, ?rd), world0\<lparr>net := 1, sent := sent world0 @ [?rJ]\<rparr>)"
    using C8_no_destination_no_write [OF j1 j2 j3, of testlib "''GET''" "''http://h/c''"] j4 j5
    by blast
  have B: "BinaryRequest testlib ?cB ''GET'' ''http://h/c'' ?rd world0
             = ((None, ?rd), world0\<lparr>net := 1, sent := sent world0 @ [?rB]\<rparr>)"
    using C8_no_destination_no_write [OF b1 b2 b3, of testlib "''GET''" "''http://h/c''"] b4 b5
    by blast
  show ?thesis
    unfolding J B by (simp add: world0_def)
qed

text \<open>
  C9. Every value a key has on the request given to \<open>sendRequest\<close> is still there, in place,
  on the request handed to the transport: the caller's values for that key come after
  them, then the token if the key is \<^verbatim>\<open>X-Auth-Token\<close>. So a request sent by \<open>JsonRequest\<close>
  has \<^verbatim>\<open>application/json\<close> as the first value of \<^verbatim>\<open>Content-Type\<close> and of \<^verbatim>\<open>Accept\<close>, and one
  sent by \<open>BinaryRequest\<close> has \<^verbatim>\<open>application/octet-stream\<close>, with the caller's values for
  these keys after it.
\<close>

theorem C9_headers_kept:
  "(\<forall>k vs. Header req k = Some vs \<longrightarrow>
       Header (outgoing L c req hs) k =
         Some (vs @ callerValues (CanonicalMIMEHeaderKey L) hs k
                 @ (if AuthToken c \<noteq> [] \<and> k = CanonicalMIMEHeaderKey L ''X-Auth-Token''
                    then [AuthToken c] else [])))
   \<and> sent (snd (sendRequest L c req hs ex p w)) = sent w @ [outgoing L c req hs]
   \<and> (sent (snd (JsonRequest L c m u rd w)) = sent w \<or>
      (\<exists>r. sent (snd (JsonRequest L c m u rd w)) = sent w @ [r] \<and>
           (\<forall>k. k = CanonicalMIMEHeaderKey L ''Content-Type'' \<or> k = CanonicalMIMEHeaderKey L ''Accept'' \<longrightarrow>
              (\<exists>pre post. Header r k =
                 Some (''application/json'' # pre
                         @ callerValues (CanonicalMIMEHeaderKey L) (ReqHeaders rd) k @ post)))))
   \<and> (sent (snd (BinaryRequest L c m u rd w)) = sent w \<or>
      (\<exists>r. sent (snd (BinaryRequest L c m u rd w)) = sent w @ [r] \<and>
           (\<forall>k. k = CanonicalMIMEHeaderKey L ''Content-Type'' \<or> k = CanonicalMIMEHeaderKey L ''Accept'' \<longrightarrow>
              (\<exists>pre post. Header r k =
                 Some (''application/octet-stream'' # pre
                         @ callerValues (CanonicalMIMEHeaderKey L) (ReqHeaders rd) k @ post)))))"
proof (intro conjI)
  show "\<forall>k vs. Header req k = Some vs \<longrightarrow>
       Header (outgoing L c req hs) k =
         Some (vs @ callerValues (CanonicalMIMEHeaderKey L) hs k
                 @ (if AuthToken c \<noteq> [] \<and> k = CanonicalMIMEHeaderKey L ''X-Auth-Token''
                    then [AuthToken c] else []))"
    by (intro allI impI) (rule outgoing_keeps)
next
  show "sent (snd (sendRequest L c req hs ex p w)) = sent w @ [outgoing L c req hs]"
    by (rule sendRequest_sent)
next
  from JsonRequest_sent_cases [of L c m u rd w]
  show "sent (snd (JsonRequest L c m u rd w)) = sent w \<or>
      (\<exists>r. sent (snd (JsonRequest L c m u rd w)) = sent w @ [r] \<and>
           (\<forall>k. k = CanonicalMIMEHeaderKey L ''Content-Type'' \<or> k = CanonicalMIMEHeaderKey L ''Accept'' \<longrightarrow>
              (\<exists>pre post. Header r k =
                 Some (''application/json'' # pre
                         @ callerValues (CanonicalMIMEHeaderKey L) (ReqHeaders rd) k @ post))))"
  proof
    assume "sent (snd (JsonRequest L c m u rd w)) = sent w"
    then show ?thesis by (rule disjI1)
  next
    assume "\<exists>req. Header req = Header_Add (CanonicalMIMEHeaderKey L)
             (Header_Add (CanonicalMIMEHeaderKey L) Map.empty ''Content-Type'' ''application/json'')
             ''Accept'' ''application/json''
      \<and> sent (snd (JsonRequest L c m u rd w)) = sent w @ [outgoing L c req (ReqHeaders rd)]"
    then obtain req where h: "Header req = Header_Add (CanonicalMIMEHeaderKey L)
             (Header_Add (CanonicalMIMEHeaderKey L) Map.empty ''Content-Type'' ''application/json'')
             ''Accept'' ''application/json''"
      and s: "sent (snd (JsonRequest L c m u rd w)) = sent w @ [outgoing L c req (ReqHeaders rd)]"
      by blast
    show ?thesis
      using s outgoing_facade_values [OF h, of _ c "ReqHeaders rd"] by blast
  qed
next
  from BinaryRequest_sent_cases [of L c m u rd w]
  show "sent (snd (BinaryRequest L c m u rd w)) = sent w \<or>
      (\<exists>r. sent (snd (BinaryRequest L c m u rd w)) = sent w @ [r] \<and>
           (\<forall>k. k = CanonicalMIMEHeaderKey L ''Content-Type'' \<or> k = CanonicalMIMEHeaderKey L ''Accept'' \<longrightarrow>
              (\<exists>pre post. Header r k =
                 Some (''application/octet-stream'' # pre
                         @ callerValues (CanonicalMIMEHeaderKey L) (ReqHeaders rd) k @ post))))"
  proof
    assume "sent (snd (BinaryRequest L c m u rd w)) = sent w"
    then show ?thesis by (rule disjI1)
  next
    assume "\<exists>req. Header req = Header_Add (CanonicalMIMEHeaderKey L)
             (Header_Add (CanonicalMIMEHeaderKey L) Map.empty ''Content-Type'' ''application/octet-stream'')
             ''Accept'' ''application/octet-stream''
      \<and> sent (snd (BinaryRequest L c m u rd w)) = sent w @ [outgoing L c req (ReqHeaders rd)]"
    then obtain req where h: "Header req = Header_Add (CanonicalMIMEHeaderKey L)
             (Header_Add (CanonicalMIMEHeaderKey L) Map.empty ''Content-Type'' ''application/octet-stream'')
             ''Accept'' ''application/octet-stream''"
      and s: "sent (snd (BinaryRequest L c m u rd w)) = sent w @ [outgoing L c req (ReqHeaders rd)]"
      by blast
    show ?thesis
      using s outgoing_facade_values [OF h, of _ c "ReqHeaders rd"] by blast
  qed
qed

theorem C9_headers_kept_witness:
  "Header (outgoing testlib \<lparr>Do = always (reply 200 ''200 OK'' ''application/json'' ''[]''), AuthToken = ''tok''\<rparr>
       \<lparr>Method = ''GET'', URL = ''http://h/c'',
          Header = [''Content-Type'' \<mapsto> [''application/json'']], ReqBody = None\<rparr>
       (Some [(''Content-Type'', [''text/plain'']), (''X-Trace'', [''1''])])) ''Content-Type''
     = Some [''application/json'', ''text/plain'']
   \<and> (\<exists>r pre post.
         sent (snd (JsonRequest testlib
                 \<lparr>Do = always (reply 200 ''200 OK'' ''application/json'' ''[]''), AuthToken = ''tok''\<rparr>
                 ''GET'' ''http://h/c''
                 (emptyRequestData\<lparr>ReqHeaders := Some [(''Content-Type'', [''text/plain''])]\<rparr>) world0)) = [r]
         \<and> Header r ''Content-Type'' = Some (''application/json'' # pre @ [''text/plain''] @ post))"
proof -
  let ?c = "\<lparr>Do = always (reply 200 ''200 OK'' ''application/json'' ''[]''), AuthToken = ''tok''\<rparr>"
  let ?req = "\<lparr>Method = ''GET'', URL = ''http://h/c'',
          Header = [''Content-Type'' \<mapsto> [''application/json'']], ReqBody = None\<rparr>"
  let ?hs = "Some [(''Content-Type'', [''text/plain'']), (''X-Trace'', [''1''])]"
  let ?rd = "emptyRequestData\<lparr>ReqHeaders := Some [(''Content-Type'', [''text/plain''])]\<rparr>"
  let ?J = "JsonRequest testlib ?c ''GET'' ''http://h/c'' ?rd world0"
  note C9 = C9_headers_kept [of ?req testlib ?c ?hs "[]" "''''" world0 "''GET''" "''http://h/c''" ?rd]
  have canon: "CanonicalMIMEHeaderKey testlib = (\<lambda>key. key)"
    by (simp add: testlib_def)
  have a: "Header ?req ''Content-Type'' = Some [''application/json'']"
    by simp
  have "Header (outgoing testlib ?c ?req ?hs) ''Content-Type''
          = Some ([''application/json''] @ callerValues (\<lambda>key. key) ?hs ''Content-Type''
              @ (if AuthToken ?c \<noteq> [] \<and> ''Content-Type'' = ''X-Auth-Token'' then [AuthToken ?c] else []))"
    using C9 a unfolding canon by blast
  then have first: "Header (outgoing testlib ?c ?req ?hs) ''Content-Type''
          = Some [''application/json'', ''text/plain'']"
    by (simp add: callerValues_def)
  have "sent (snd ?J) \<noteq> sent world0"
    by (simp add: JsonRequest_def NewRequest_def sendRequest_def clientDo_def always_def
        world0_def emptyRequestData_def testlib_def Let_def reply_def StatusOK_def)
  with C9 obtain r where r: "sent (snd ?J) = sent world0 @ [r]"
    and k: "\<forall>k. k = ''Content-Type'' \<or> k = ''Accept'' \<longrightarrow>
              (\<exists>pre post. Header r k =
                 Some (''application/json'' # pre @ callerValues (\<lambda>key. key) (ReqHeaders ?rd) k @ post))"
    unfolding canon by blast
  from k obtain pre post where
    "Header r ''Content-Type'' = Some (''application/json'' # pre
        @ callerValues (\<lambda>key. key) (ReqHeaders ?rd) ''Content-Type'' @ post)"
    by blast
  then have "Header r ''Content-Type'' = Some (''application/json'' # pre @ [''text/plain''] @ post)"
    by (simp add: callerValues_def)
  with r have "\<exists>r pre post. sent (snd ?J) = [r]
      \<and> Header r ''Content-Type'' = Some (''application/json'' # pre @ [''text/plain''] @ post)"
    by (auto simp: world0_def)
  with first show ?thesis by blast
qed

text \<open>
  C10. When \<open>sendRequest\<close> returns the error of a failed exchange or of an unexpected status,
  the body it returns is empty; when \<open>JsonRequest\<close> or \<open>BinaryRequest\<close> returns such an error,
  the descriptor, and with it both destinations, is as it was before the call.
\<close>

theorem C10_error_paths:
  "(sendRequest L c req hs ex p w = ((b, err1), w1) \<and> (isExecutionFailure err1 \<or> isUnexpectedStatus err1)
      \<longrightarrow> b = []) \<and>
   (JsonRequest L c m u rd w = ((err2, rd2), w2) \<and> (isExecutionFailure err2 \<or> isUnexpectedStatus err2)
      \<longrightarrow> rd2 = rd) \<and>
   (BinaryRequest L c m u rd w = ((err3, rd3), w3) \<and> (isExecutionFailure err3 \<or> isUnexpectedStatus err3)
      \<longrightarrow> rd3 = rd)"
proof (intro conjI impI)
  assume a: "sendRequest L c req hs ex p w = ((b, err1), w1) \<and> (isExecutionFailure err1 \<or> isUnexpectedStatus err1)"
  show "b = []"
    by (rule sendRequest_empty_body [OF conjunct1 [OF a] conjunct2 [OF a]])
next
  assume a: "JsonRequest L c m u rd w = ((err2, rd2), w2) \<and> (isExecutionFailure err2 \<or> isUnexpectedStatus err2)"
  show "rd2 = rd"
    by (rule JsonRequest_error_frame [OF conjunct1 [OF a] conjunct2 [OF a]])
next
  assume a: "BinaryRequest L c m u rd w = ((err3, rd3), w3) \<and> (isExecutionFailure err3 \<or> isUnexpectedStatus err3)"
  show "rd3 = rd"
    by (rule BinaryRequest_error_frame [OF conjunct1 [OF a] conjunct2 [OF a]])
qed

theorem C10_error_paths_witness:
  "fst (fst (sendRequest testlib \<lparr>Do = refusing, AuthToken = ''tok''\<rparr>
        \<lparr>Method = ''GET'', URL = ''http://h/c'', Header = Map.empty, ReqBody = None\<rparr> None [] ''payload'' world0)) = []
   \<and> snd (fst (JsonRequest testlib \<lparr>Do = refusing, AuthToken = ''tok''\<rparr> ''GET'' ''http://h/c''
        (emptyRequestData\<lparr>RespValue := Some ''old'', RespData := Some ''old''\<rparr>) world0))
      = emptyRequestData\<lparr>RespValue := Some ''old'', RespData := Some ''old''\<rparr>
   \<and> snd (fst (BinaryRequest testlib \<lparr>Do = refusing, AuthToken = ''tok''\<rparr> ''GET'' ''http://h/c''
        (emptyRequestData\<lparr>RespValue := Some ''old'', RespData := Some ''old''\<rparr>) world0))
      = emptyRequestData\<lparr>RespValue := Some ''old'', RespData := Some ''old''\<rparr>"
proof -
  let ?c = "\<lparr>Do = refusing, AuthToken = ''tok''\<rparr>"
  let ?req = "\<lparr>Method = ''GET'', URL = ''http://h/c'', Header = Map.empty, ReqBody = None\<rparr>"
  let ?rd = "emptyRequestData\<lparr>RespValue := Some ''old'', RespData := Some ''old''\<rparr>"
  let ?S = "sendRequest testlib ?c ?req None [] ''payload'' world0"
  let ?J = "JsonRequest testlib ?c ''GET'' ''http://h/c'' ?rd world0"
  let ?B = "BinaryRequest testlib ?c ''GET'' ''http://h/c'' ?rd world0"
  have s: "isExecutionFailure (snd (fst ?S))"
    by (simp add: sendRequest_def clientDo_def refusing_def AddContext_def)
  have j: "isExecutionFailure (fst (fst ?J))"
    by (simp add: JsonRequest_def NewRequest_def testlib_def emptyRequestData_def
        sendRequest_def clientDo_def refusing_def AddContext_def Let_def)
  have b: "isExecutionFailure (fst (fst ?B))"
    by (simp add: BinaryRequest_def NewRequest_def testlib_def emptyRequestData_def
        sendRequest_def clientDo_def refusing_def AddContext_def Let_def)
  show ?thesis
    using C10_error_paths [of testlib ?c ?req None "[]" "''payload''" world0
        "fst (fst ?S)" "snd (fst ?S)" "snd ?S" "''GET''" "''http://h/c''" ?rd
        "fst (fst ?J)" "snd (fst ?J)" "snd ?J" "fst (fst ?B)" "snd (fst ?B)" "snd ?B"]
      s j b
    by simp
qed

end
